theory Spec2Isabelle
  imports Complex_Main
begin

section \<open>Python values and the world outside the program\<close>

text \<open>
  The repository is glue code around external collaborators: \<open>soundfile\<close>,
  \<open>librosa\<close>, the DNSMOS scorer, the file system, \<open>subprocess\<close>. The
  collaborators are parameters of the model (the record \<open>env\<close>); what the glue does
  with them is translated statement by statement. Every call that may raise returns a
  sum, \<open>Inl\<close> carrying the exception. The world (files on disk, lines printed, the
  calls made to the collaborators) is passed explicitly and returned updated, also when
  an exception is raised, since a file written before the raise stays written.

  Samples are modelled as real numbers: rounding of floating-point arithmetic is not part
  of the model. An exception is its class name and its text; an \<open>except\<close> clause
  catches by class name.
\<close>

type_synonym path = string

datatype exc = Exc (exc_class: string) (exc_str: string)

text \<open>
  A numpy array of samples as \<open>soundfile\<close> produces it: shape \<open>(frames,)\<close> for one
  channel, shape \<open>(frames, channels)\<close> otherwise, one row per frame.
\<close>

datatype ndarray = Array1 "real list" | Array2 "real list list"

text \<open>What is stored under a path.\<close>

datatype content = Empty | Wav ndarray int | Text string | Dir

text \<open>
  The values of the scorer's result dictionary. \<open>PyObject x\<close> stands for any object
  that \<open>float()\<close> rejects by raising \<open>x\<close> (\<open>None\<close>, a list, ...).
\<close>

datatype pyval = PyFloat real | PyInt int | PyBool bool | PyObject exc

type_synonym pydict = "(string \<times> pyval) list"

type_synonym scores = "(string \<times> real) list"

text \<open>The argument of \<open>dnsmos\<close>: a \<open>str\<close>, a numpy array, or any other object
  (one without a \<open>shape\<close> attribute).\<close>

datatype pyobj = Str string | NdArray ndarray | Obj

text \<open>
  The scorer object \<open>ComputeScore(...)\<close> is called with a path, a sampling rate and
  the personalized-MOS flag; it reads the file system.
\<close>

type_synonym scorer = "path \<Rightarrow> int \<Rightarrow> bool \<Rightarrow> (path \<rightharpoonup> content) \<Rightarrow> exc + pydict"

text \<open>The calls made to the collaborators, in the order they are made.\<close>

datatype event =
    Construct path path
  | SfRead path
  | Resample ndarray int int
  | SfWrite path ndarray int
  | Score path int bool "exc + pydict"
  | Unlink path
  | Run "string list"

record world =
  files :: "path \<rightharpoonup> content"
  stdout :: "string list"
  calls :: "event list"

record env =
  package_parent :: path
  import_ComputeScore :: "path list \<Rightarrow> exc + (path \<Rightarrow> path \<Rightarrow> exc + scorer)"
  sf_read :: "path \<Rightarrow> (path \<rightharpoonup> content) \<Rightarrow> exc + (ndarray \<times> int)"
  librosa_resample :: "ndarray \<Rightarrow> int \<Rightarrow> int \<Rightarrow> exc + ndarray"
  sf_write_error :: "path \<Rightarrow> ndarray \<Rightarrow> int \<Rightarrow> exc option"
  tmp_stem :: "(path \<rightharpoonup> content) \<Rightarrow> exc + string"

definition record_call :: "event \<Rightarrow> world \<Rightarrow> world" where
  "record_call ev w = w\<lparr>calls := calls w @ [ev]\<rparr>"

definition print :: "string \<Rightarrow> world \<Rightarrow> world" where
  "print line w = w\<lparr>stdout := stdout w @ [line]\<rparr>"

text \<open>The events a run added to the trace.\<close>

definition new_calls :: "world \<Rightarrow> world \<Rightarrow> event list" where
  "new_calls w w' = drop (length (calls w)) (calls w')"

section \<open>The library calls the wrapper makes\<close>

text \<open>\<open>len(a.shape)\<close>\<close>

fun ndim :: "ndarray \<Rightarrow> nat" where
  "ndim (Array1 xs) = 1"
| "ndim (Array2 rows) = 2"

definition mean :: "real list \<Rightarrow> real" where
  "mean xs = sum_list xs / real (length xs)"

text \<open>\<open>np.mean(a, axis=1)\<close>: the mean of every row; a one-dimensional array has no
  axis 1.\<close>

fun np_mean_axis1 :: "ndarray \<Rightarrow> exc + ndarray" where
  "np_mean_axis1 (Array2 rows) = Inr (Array1 (map mean rows))"
| "np_mean_axis1 (Array1 xs) =
     Inl (Exc ''AxisError'' ''axis 1 is out of bounds for array of dimension 1'')"

text \<open>\<open>sf.read(path)\<close>\<close>

definition soundfile_read :: "env \<Rightarrow> path \<Rightarrow> world \<Rightarrow> (exc + ndarray \<times> int) \<times> world" where
  "soundfile_read e p w = (sf_read e p (files w), record_call (SfRead p) w)"

text \<open>\<open>librosa.resample(y, orig_sr=..., target_sr=...)\<close>\<close>

definition resample :: "env \<Rightarrow> ndarray \<Rightarrow> int \<Rightarrow> int \<Rightarrow> world \<Rightarrow> (exc + ndarray) \<times> world" where
  "resample e y orig_sr target_sr w =
     (librosa_resample e y orig_sr target_sr, record_call (Resample y orig_sr target_sr) w)"

text \<open>
  \<open>tempfile.NamedTemporaryFile(suffix='.wav', delete=False)\<close>: a new, empty file
  under a name that ends in \<open>.wav\<close>, created exclusively. Leaving the \<open>with\<close>
  block closes the handle and, as \<open>delete=False\<close>, leaves the file.
\<close>

definition NamedTemporaryFile :: "env \<Rightarrow> world \<Rightarrow> (exc + path) \<times> world" where
  "NamedTemporaryFile e w =
     (case tmp_stem e (files w) of
        Inl x \<Rightarrow> (Inl x, w)
      | Inr s \<Rightarrow>
          (let name = s @ ''.wav'' in
           if files w name \<noteq> None then (Inl (Exc ''FileExistsError'' name), w)
           else (Inr name, w\<lparr>files := (files w)(name \<mapsto> Empty)\<rparr>)))"

text \<open>\<open>sf.write(path, data, samplerate)\<close>\<close>

definition soundfile_write :: "env \<Rightarrow> path \<Rightarrow> ndarray \<Rightarrow> int \<Rightarrow> world \<Rightarrow> (exc + unit) \<times> world" where
  "soundfile_write e p a sr w =
     (let w1 = record_call (SfWrite p a sr) w in
      case sf_write_error e p a sr of
        Some x \<Rightarrow> (Inl x, w1)
      | None \<Rightarrow> (Inr (), w1\<lparr>files := (files w1)(p \<mapsto> Wav a sr)\<rparr>))"

text \<open>\<open>os.unlink(path)\<close>\<close>

definition os_unlink :: "path \<Rightarrow> world \<Rightarrow> (exc + unit) \<times> world" where
  "os_unlink p w =
     (let w1 = record_call (Unlink p) w in
      if files w1 p = None then (Inl (Exc ''FileNotFoundError'' p), w1)
      else (Inr (), w1\<lparr>files := (files w1)(p := None)\<rparr>))"

text \<open>\<open>d[k]\<close> on a dictionary; the message of a \<open>KeyError\<close> is the quoted key.\<close>

definition quoted :: "string \<Rightarrow> string" where
  "quoted s = [CHR 0x27] @ s @ [CHR 0x27]"

definition getitem :: "pydict \<Rightarrow> string \<Rightarrow> exc + pyval" where
  "getitem d k =
     (case map_of d k of
        None \<Rightarrow> Inl (Exc ''KeyError'' (quoted k))
      | Some v \<Rightarrow> Inr v)"

text \<open>\<open>float(v)\<close>\<close>

fun py_float :: "pyval \<Rightarrow> exc + real" where
  "py_float (PyFloat x) = Inr x"
| "py_float (PyInt i) = Inr (of_int i)"
| "py_float (PyBool b) = Inr (if b then 1 else 0)"
| "py_float (PyObject x) = Inl x"

section \<open>python_modules/dnsmos_wrapper/__init__.py\<close>

record DNSMOSWrapper =
  compute_score :: scorer

text \<open>\<open>DNSMOSWrapper.__init__\<close>: the scorer is built from the two model paths under
  the submodule.\<close>

definition dnsmos_models_dir :: "env \<Rightarrow> path" where
  "dnsmos_models_dir e = package_parent e @ ''/DNSMOS/DNSMOS/DNSMOS''"

definition DNSMOSWrapper_init ::
  "env \<Rightarrow> (path \<Rightarrow> path \<Rightarrow> exc + scorer) \<Rightarrow> world \<Rightarrow> (exc + DNSMOSWrapper) \<times> world" where
  "DNSMOSWrapper_init e ComputeScore w =
     (let primary_model_path = dnsmos_models_dir e @ ''/sig_bak_ovr.onnx'';
          p808_model_path = dnsmos_models_dir e @ ''/model_v8.onnx'';
          w1 = record_call (Construct primary_model_path p808_model_path) w
      in case ComputeScore primary_model_path p808_model_path of
           Inl x \<Rightarrow> (Inl x, w1)
         | Inr s \<Rightarrow> (Inr \<lparr>compute_score = s\<rparr>, w1))"

text \<open>\<open>self.compute_score(path, sr, flag)\<close>\<close>

definition call_scorer ::
  "DNSMOSWrapper \<Rightarrow> path \<Rightarrow> int \<Rightarrow> bool \<Rightarrow> world \<Rightarrow> (exc + pydict) \<times> world" where
  "call_scorer self p sr flag w =
     (let r = compute_score self p sr flag (files w)
      in (r, record_call (Score p sr flag r) w))"

text \<open>
  Lines 63-67 of \<open>calculate_dnsmos\<close>, which lines 104-108 of
  \<open>calculate_dnsmos_from_array\<close> repeat word for word: the temporary file is created,
  written at 16000 Hz, scored and unlinked. An exception at any statement leaves the
  block at once.
\<close>

definition score_through_tmp_file ::
  "env \<Rightarrow> DNSMOSWrapper \<Rightarrow> ndarray \<Rightarrow> world \<Rightarrow> (exc + pydict) \<times> world" where
  "score_through_tmp_file e self audio w =
     (case NamedTemporaryFile e w of
        (Inl x, w1) \<Rightarrow> (Inl x, w1)
      | (Inr name, w1) \<Rightarrow>
     (case soundfile_write e name audio 16000 w1 of
        (Inl x, w2) \<Rightarrow> (Inl x, w2)
      | (Inr u, w2) \<Rightarrow>
     (case call_scorer self name 16000 False w2 of
        (Inl x, w3) \<Rightarrow> (Inl x, w3)
      | (Inr clip_dict, w3) \<Rightarrow>
     (case os_unlink name w3 of
        (Inl x, w4) \<Rightarrow> (Inl x, w4)
      | (Inr u, w4) \<Rightarrow> (Inr clip_dict, w4)))))"

text \<open>Lines 70-74 and 111-115: the dictionary of the three P.835 scores.\<close>

definition scores_of :: "pydict \<Rightarrow> exc + scores" where
  "scores_of clip_dict =
     (case getitem clip_dict ''SIG'' of Inl x \<Rightarrow> Inl x | Inr v1 \<Rightarrow>
     (case py_float v1 of Inl x \<Rightarrow> Inl x | Inr sig \<Rightarrow>
     (case getitem clip_dict ''BAK'' of Inl x \<Rightarrow> Inl x | Inr v2 \<Rightarrow>
     (case py_float v2 of Inl x \<Rightarrow> Inl x | Inr bak \<Rightarrow>
     (case getitem clip_dict ''OVRL'' of Inl x \<Rightarrow> Inl x | Inr v3 \<Rightarrow>
     (case py_float v3 of Inl x \<Rightarrow> Inl x | Inr ovrl \<Rightarrow>
        Inr [(''SIG'', sig), (''BAK'', bak), (''OVRL'', ovrl)]))))))"

text \<open>Lines 53-55 and 94-96: convert to mono if there is more than one dimension.\<close>

definition to_mono :: "ndarray \<Rightarrow> exc + ndarray" where
  "to_mono audio = (if ndim audio > 1 then np_mean_axis1 audio else Inr audio)"

text \<open>Lines 57-59 and 98-100: resample to 16 kHz if needed.\<close>

definition to_16k :: "env \<Rightarrow> ndarray \<Rightarrow> int \<Rightarrow> world \<Rightarrow> (exc + ndarray) \<times> world" where
  "to_16k e audio sr w =
     (if sr \<noteq> 16000 then resample e audio sr 16000 w else (Inr audio, w))"

text \<open>
  The built-in classes that derive from \<open>BaseException\<close> and not from
  \<open>Exception\<close>; an \<open>except Exception\<close> clause lets them pass. (A class of
  the model is a name, so a subclass defined elsewhere is known by its own name only.)
\<close>

definition is_Exception :: "exc \<Rightarrow> bool" where
  "is_Exception x =
     (exc_class x \<notin> set [''BaseException'', ''BaseExceptionGroup'', ''GeneratorExit'',
                            ''KeyboardInterrupt'', ''SystemExit''])"

text \<open>The \<open>except Exception\<close> clause of both methods: print and return \<open>None\<close>.
  What the clause does not catch leaves the method.\<close>

definition error_line :: "exc \<Rightarrow> string" where
  "error_line x = ''Error calculating DNSMOS: '' @ exc_str x"

definition except_Exception ::
  "(exc + scores) \<times> world \<Rightarrow> (exc + scores option) \<times> world" where
  "except_Exception r =
     (case r of
        (Inl x, w) \<Rightarrow>
          if is_Exception x then (Inr None, print (error_line x) w) else (Inl x, w)
      | (Inr s, w) \<Rightarrow> (Inr (Some s), w))"

text \<open>The \<open>try\<close> block of \<open>calculate_dnsmos\<close> (lines 50-76).\<close>

definition calculate_dnsmos_try ::
  "env \<Rightarrow> DNSMOSWrapper \<Rightarrow> path \<Rightarrow> world \<Rightarrow> (exc + scores) \<times> world" where
  "calculate_dnsmos_try e self audio_path w =
     (case soundfile_read e audio_path w of
        (Inl x, w1) \<Rightarrow> (Inl x, w1)
      | (Inr (audio, sr), w1) \<Rightarrow>
     (case to_mono audio of
        Inl x \<Rightarrow> (Inl x, w1)
      | Inr audio1 \<Rightarrow>
     (case to_16k e audio1 sr w1 of
        (Inl x, w2) \<Rightarrow> (Inl x, w2)
      | (Inr audio2, w2) \<Rightarrow>
     (case score_through_tmp_file e self audio2 w2 of
        (Inl x, w3) \<Rightarrow> (Inl x, w3)
      | (Inr clip_dict, w3) \<Rightarrow> (scores_of clip_dict, w3)))))"

definition calculate_dnsmos ::
  "env \<Rightarrow> DNSMOSWrapper \<Rightarrow> path \<Rightarrow> world \<Rightarrow> (exc + scores option) \<times> world" where
  "calculate_dnsmos e self audio_path w =
     except_Exception (calculate_dnsmos_try e self audio_path w)"

text \<open>\<open>audio_array.shape\<close>: only an array has the attribute.\<close>

fun shape_of :: "pyobj \<Rightarrow> exc + ndarray" where
  "shape_of (NdArray a) = Inr a"
| "shape_of (Str s) =
     Inl (Exc ''AttributeError'' (quoted ''str'' @ '' object has no attribute '' @ quoted ''shape''))"
| "shape_of Obj =
     Inl (Exc ''AttributeError'' (''object has no attribute '' @ quoted ''shape''))"

text \<open>The \<open>try\<close> block of \<open>calculate_dnsmos_from_array\<close> (lines 94-117).\<close>

definition calculate_dnsmos_from_array_try ::
  "env \<Rightarrow> DNSMOSWrapper \<Rightarrow> pyobj \<Rightarrow> int \<Rightarrow> world \<Rightarrow> (exc + scores) \<times> world" where
  "calculate_dnsmos_from_array_try e self audio_array sample_rate w =
     (case shape_of audio_array of
        Inl x \<Rightarrow> (Inl x, w)
      | Inr audio \<Rightarrow>
     (case to_mono audio of
        Inl x \<Rightarrow> (Inl x, w)
      | Inr audio1 \<Rightarrow>
     (case to_16k e audio1 sample_rate w of
        (Inl x, w2) \<Rightarrow> (Inl x, w2)
      | (Inr audio2, w2) \<Rightarrow>
     (case score_through_tmp_file e self audio2 w2 of
        (Inl x, w3) \<Rightarrow> (Inl x, w3)
      | (Inr clip_dict, w3) \<Rightarrow> (scores_of clip_dict, w3)))))"

definition calculate_dnsmos_from_array ::
  "env \<Rightarrow> DNSMOSWrapper \<Rightarrow> pyobj \<Rightarrow> int \<Rightarrow> world \<Rightarrow> (exc + scores option) \<times> world" where
  "calculate_dnsmos_from_array e self audio_array sample_rate w =
     except_Exception (calculate_dnsmos_from_array_try e self audio_array sample_rate w)"

text \<open>\<open>dnsmos(audio_path_or_array, sample_rate=16000)\<close>, on the global instance.\<close>

definition dnsmos ::
  "env \<Rightarrow> DNSMOSWrapper \<Rightarrow> pyobj \<Rightarrow> int \<Rightarrow> world \<Rightarrow> (exc + scores option) \<times> world" where
  "dnsmos e dnsmos_wrapper audio_path_or_array sample_rate w =
     (case audio_path_or_array of
        Str audio_path \<Rightarrow> calculate_dnsmos e dnsmos_wrapper audio_path w
      | _ \<Rightarrow> calculate_dnsmos_from_array e dnsmos_wrapper audio_path_or_array sample_rate w)"

text \<open>
  Importing the module (lines 15-25 and 124): the submodule directory is put on the
  module search path when it exists, \<open>ComputeScore\<close> is imported (an
  \<open>ImportError\<close> is raised again with a hint), and the global instance is created.
  Any exception here makes the import fail.
\<close>

definition is_ImportError :: "exc \<Rightarrow> bool" where
  "is_ImportError x = (exc_class x = ''ImportError'' \<or> exc_class x = ''ModuleNotFoundError'')"

definition import_dnsmos_wrapper :: "env \<Rightarrow> world \<Rightarrow> (exc + DNSMOSWrapper) \<times> world" where
  "import_dnsmos_wrapper e w =
     (let dnsmos_submodule_dir = package_parent e @ ''/DNSMOS/DNSMOS'';
          sys_path = (if files w dnsmos_submodule_dir \<noteq> None then [dnsmos_submodule_dir] else [])
      in case import_ComputeScore e sys_path of
           Inl x \<Rightarrow>
             (if is_ImportError x
              then (Inl (Exc ''ImportError''
                      (''Could not import DNSMOS. Make sure git submodules are initialized: ''
                        @ exc_str x)), w)
              else (Inl x, w))
         | Inr ComputeScore \<Rightarrow> DNSMOSWrapper_init e ComputeScore w)"

text \<open>
  A process that imports the module and then calls \<open>dnsmos\<close> on each of the given
  arguments in turn. The calls share the one global \<open>dnsmos_wrapper\<close>. An exception
  that leaves a call ends the process.
\<close>

fun dnsmos_calls ::
  "env \<Rightarrow> DNSMOSWrapper \<Rightarrow> (pyobj \<times> int) list \<Rightarrow> world \<Rightarrow>
     (exc + scores option list) \<times> world" where
  "dnsmos_calls e dnsmos_wrapper [] w = (Inr [], w)"
| "dnsmos_calls e dnsmos_wrapper ((a, sr) # rest) w =
     (case dnsmos e dnsmos_wrapper a sr w of
        (Inl x, w1) \<Rightarrow> (Inl x, w1)
      | (Inr r, w1) \<Rightarrow>
          (case dnsmos_calls e dnsmos_wrapper rest w1 of
             (Inl x, w2) \<Rightarrow> (Inl x, w2)
           | (Inr rs, w2) \<Rightarrow> (Inr (r # rs), w2)))"

definition process ::
  "env \<Rightarrow> (pyobj \<times> int) list \<Rightarrow> world \<Rightarrow> (exc + scores option list) \<times> world" where
  "process e args w =
     (case import_dnsmos_wrapper e w of
        (Inl x, w1) \<Rightarrow> (Inl x, w1)
      | (Inr dnsmos_wrapper, w1) \<Rightarrow> dnsmos_calls e dnsmos_wrapper args w1)"

fun is_Construct :: "event \<Rightarrow> bool" where
  "is_Construct (Construct p q) = True"
| "is_Construct ev = False"

fun is_Resample :: "event \<Rightarrow> bool" where
  "is_Resample (Resample a r t) = True"
| "is_Resample ev = False"

section \<open>install_python_deps.py\<close>

text \<open>
  The installer's host: the interpreter, which programs can be started, the exit status
  and the bytes a command writes to its standard error, whether a file can be opened for
  writing, and which modules import. The text written by \<open>create_dnsmos_wrapper\<close>
  (lines 107-225) is kept as an opaque string. The model starts after
  \<open>parser.parse_args()\<close>, from the three parsed flags.
\<close>

record host =
  version_info :: "nat \<times> nat"
  executable :: string
  found :: "string \<Rightarrow> bool"
  returncode :: "string list \<Rightarrow> int"
  stderr_bytes :: "string list \<Rightarrow> string"
  str_CalledProcessError :: "string list \<Rightarrow> int \<Rightarrow> string"
  import_error :: "string \<Rightarrow> exc option"
  open_error :: "path \<Rightarrow> exc option"
  wrapper_content :: string

record args =
  conda :: bool
  force :: bool
  verbose :: bool

text \<open>How a function is left other than by returning: \<open>sys.exit(n)\<close>, or an
  exception nobody catches.\<close>

datatype abort = SystemExit int | Raised exc

text \<open>The exit status of the process for an outcome of \<open>main\<close>.\<close>

fun exit_status :: "abort + unit \<Rightarrow> int" where
  "exit_status (Inr u) = 0"
| "exit_status (Inl (SystemExit n)) = n"
| "exit_status (Inl (Raised x)) = 1"

fun str_nat :: "nat \<Rightarrow> string" where
  "str_nat n =
     (if n < 10 then [char_of (48 + n)]
      else str_nat (n div 10) @ [char_of (48 + n mod 10)])"

fun join :: "string \<Rightarrow> string list \<Rightarrow> string" where
  "join sep [] = []"
| "join sep [x] = x"
| "join sep (x # y # ys) = x @ sep @ join sep (y # ys)"

definition colors :: "(string \<times> string) list" where
  "colors =
     [(''INFO'', CHR 0x1B # ''[94m''),
      (''SUCCESS'', CHR 0x1B # ''[92m''),
      (''WARNING'', CHR 0x1B # ''[93m''),
      (''ERROR'', CHR 0x1B # ''[91m''),
      (''RESET'', CHR 0x1B # ''[0m'')]"

definition status_line :: "string \<Rightarrow> string \<Rightarrow> string" where
  "status_line message status =
     (case map_of colors status of None \<Rightarrow> [] | Some c \<Rightarrow> c)
       @ ''['' @ status @ '']'' @ the (map_of colors ''RESET'') @ '' '' @ message"

definition print_status :: "string \<Rightarrow> string \<Rightarrow> world \<Rightarrow> world" where
  "print_status message status w = print (status_line message status) w"

definition check_python_version :: "host \<Rightarrow> world \<Rightarrow> (abort + unit) \<times> world" where
  "check_python_version h w =
     (case version_info h of (major, minor) \<Rightarrow>
        if major < 3 \<or> (major = 3 \<and> minor < 7)
        then (Inl (SystemExit 1), print_status ''Python 3.7+ is required'' ''ERROR'' w)
        else (Inr (),
              print_status (''Python '' @ str_nat major @ ''.'' @ str_nat minor @ '' detected'')
                ''SUCCESS'' w))"

text \<open>
  \<open>subprocess.run(cmd, check=True, capture_output=...)\<close>: the program is not found,
  or it runs and a non-zero exit status raises \<open>CalledProcessError\<close>, whose
  \<open>stderr\<close> is set only when the output was captured.
\<close>

datatype completed = Completed | CalledProcessError int "string option" | FileNotFoundError string

definition subprocess_run :: "host \<Rightarrow> string list \<Rightarrow> bool \<Rightarrow> world \<Rightarrow> completed \<times> world" where
  "subprocess_run h cmd capture_output w =
     (let w1 = record_call (Run cmd) w in
      case cmd of
        [] \<Rightarrow> (FileNotFoundError [], w1)
      | prog # rest \<Rightarrow>
          if \<not> found h prog then (FileNotFoundError prog, w1)
          else if returncode h cmd = 0 then (Completed, w1)
          else (CalledProcessError (returncode h cmd)
                  (if capture_output then Some (stderr_bytes h cmd) else None), w1))"

definition check_pip :: "host \<Rightarrow> world \<Rightarrow> bool \<times> world" where
  "check_pip h w =
     (case subprocess_run h [executable h, ''-m'', ''pip'', ''--version''] True w of
        (Completed, w1) \<Rightarrow> (True, w1)
      | (CalledProcessError rc err, w1) \<Rightarrow> (False, w1)
      | (FileNotFoundError p, w1) \<Rightarrow> (False, w1))"

definition check_conda :: "host \<Rightarrow> world \<Rightarrow> bool \<times> world" where
  "check_conda h w =
     (case subprocess_run h [''conda'', ''--version''] True w of
        (Completed, w1) \<Rightarrow> (True, w1)
      | (CalledProcessError rc err, w1) \<Rightarrow> (False, w1)
      | (FileNotFoundError p, w1) \<Rightarrow> (False, w1))"

text \<open>
  \<open>bytes.decode()\<close>: strict UTF-8. A string of the model is a sequence of bytes, so
  the decoded text is the bytes themselves when they are well-formed UTF-8; otherwise
  \<open>UnicodeDecodeError\<close> is raised (its text, which names the offending position, is
  left out).
\<close>

definition continuation :: "nat \<Rightarrow> bool" where
  "continuation b = (0x80 \<le> b \<and> b \<le> 0xBF)"

fun utf8 :: "nat list \<Rightarrow> bool" where
  "utf8 [] = True"
| "utf8 (b0 # bs) =
     (if b0 < 0x80 then utf8 bs
      else if 0xC2 \<le> b0 \<and> b0 \<le> 0xDF then
        (case bs of
           b1 # r \<Rightarrow> continuation b1 \<and> utf8 r
         | _ \<Rightarrow> False)
      else if 0xE0 \<le> b0 \<and> b0 \<le> 0xEF then
        (case bs of
           b1 # b2 # r \<Rightarrow>
             (if b0 = 0xE0 then 0xA0 \<le> b1 \<and> b1 \<le> 0xBF
              else if b0 = 0xED then 0x80 \<le> b1 \<and> b1 \<le> 0x9F
              else continuation b1) \<and>
             continuation b2 \<and> utf8 r
         | _ \<Rightarrow> False)
      else if 0xF0 \<le> b0 \<and> b0 \<le> 0xF4 then
        (case bs of
           b1 # b2 # b3 # r \<Rightarrow>
             (if b0 = 0xF0 then 0x90 \<le> b1 \<and> b1 \<le> 0xBF
              else if b0 = 0xF4 then 0x80 \<le> b1 \<and> b1 \<le> 0x8F
              else continuation b1) \<and>
             continuation b2 \<and> continuation b3 \<and> utf8 r
         | _ \<Rightarrow> False)
      else False)"

definition decode :: "string \<Rightarrow> exc + string" where
  "decode bytes =
     (if utf8 (map of_char bytes) then Inr bytes
      else Inl (Exc ''UnicodeDecodeError'' ''utf-8 codec cannot decode the bytes''))"

text \<open>Lines 64-70 of \<open>install_package\<close>: the command.\<close>

definition install_cmd :: "host \<Rightarrow> string \<Rightarrow> bool \<Rightarrow> bool \<Rightarrow> string list" where
  "install_cmd h package use_conda force_flag =
     (if use_conda then [''conda'', ''install'', ''-y'', ''-c'', ''conda-forge'', package]
      else [executable h, ''-m'', ''pip'', ''install'']
             @ (if force_flag then [''--force-reinstall''] else [])
             @ [package])"

text \<open>\<open>install_package\<close>: only \<open>CalledProcessError\<close> is caught, and the
  handler itself decodes the captured error output, which may raise.\<close>

definition install_package ::
  "host \<Rightarrow> string \<Rightarrow> bool \<Rightarrow> bool \<Rightarrow> bool \<Rightarrow> world \<Rightarrow> (abort + bool) \<times> world" where
  "install_package h package use_conda force_flag verbose_flag w =
     (let cmd = install_cmd h package use_conda force_flag;
          w1 = (if verbose_flag then print_status (''Running: '' @ join '' '' cmd) ''INFO'' w else w)
      in case subprocess_run h cmd (\<not> verbose_flag) w1 of
           (Completed, w2) \<Rightarrow>
             (Inr True, print_status (''Successfully installed '' @ package) ''SUCCESS'' w2)
         | (CalledProcessError rc err, w2) \<Rightarrow>
             (let w3 = print_status
                         (''Failed to install '' @ package @ '': '' @ str_CalledProcessError h cmd rc)
                         ''ERROR'' w2
              in case err of
                   None \<Rightarrow> (Inr False, w3)
                 | Some bytes \<Rightarrow>
                     if \<not> verbose_flag \<and> bytes \<noteq> [] then
                       (case decode bytes of
                          Inl x \<Rightarrow> (Inl (Raised x), w3)
                        | Inr text \<Rightarrow> (Inr False, print (''Error details: '' @ text) w3))
                     else (Inr False, w3))
         | (FileNotFoundError p, w2) \<Rightarrow> (Inl (Raised (Exc ''FileNotFoundError'' p)), w2))"

definition check_dnsmos_submodule :: "world \<Rightarrow> bool \<times> world" where
  "check_dnsmos_submodule w =
     (let w1 = print_status ''Checking DNSMOS submodule...'' ''INFO'' w;
          dnsmos_dir = ''python_modules/DNSMOS''
      in if files w1 dnsmos_dir = None
         then (False,
               print_status ''DNSMOS submodule not found. Please run: ./setup_submodules.sh''
                 ''ERROR'' w1)
         else
           (let git_dir = dnsmos_dir @ ''/.git'' in
            if files w1 git_dir = None
            then (False,
                  print_status ''Please run: git submodule update --init --recursive'' ''INFO''
                    (print_status ''DNSMOS directory exists but is not a git submodule''
                       ''WARNING'' w1))
            else (True, print_status ''DNSMOS submodule is properly set up'' ''SUCCESS'' w1)))"

text \<open>\<open>create_dnsmos_wrapper\<close>: \<open>open(wrapper_path, 'w')\<close> raises when the path
  is a directory or the host refuses; nothing catches that.\<close>

definition create_dnsmos_wrapper :: "host \<Rightarrow> world \<Rightarrow> (abort + unit) \<times> world" where
  "create_dnsmos_wrapper h w =
     (let wrapper_path = ''python_modules'' @ ''/'' @ ''dnsmos_wrapper.py'' in
      if files w wrapper_path = Some Dir
      then (Inl (Raised (Exc ''IsADirectoryError'' wrapper_path)), w)
      else
        (case open_error h wrapper_path of
           Some x \<Rightarrow> (Inl (Raised x), w)
         | None \<Rightarrow>
             (Inr (),
              print_status ''DNSMOS wrapper created'' ''SUCCESS''
                (w\<lparr>files := (files w)(wrapper_path \<mapsto> Text (wrapper_content h))\<rparr>))))"

text \<open>The two \<open>for\<close> loops of \<open>main\<close>: the result of each installation is dropped,
  an exception ends the loop.\<close>

fun install_all :: "host \<Rightarrow> string list \<Rightarrow> args \<Rightarrow> world \<Rightarrow> (abort + unit) \<times> world" where
  "install_all h [] a w = (Inr (), w)"
| "install_all h (package # rest) a w =
     (case install_package h package (conda a) (force a) (verbose a) w of
        (Inl x, w1) \<Rightarrow> (Inl x, w1)
      | (Inr ok, w1) \<Rightarrow> install_all h rest a w1)"

definition core_packages :: "string list" where
  "core_packages = [''numpy'', ''scipy'', ''librosa'', ''soundfile'', ''pandas'', ''tqdm'']"

definition metrics_packages :: "string list" where
  "metrics_packages = [''pypesq'', ''onnxruntime'']"

text \<open>The import test at the end of \<open>main\<close>: the first import that fails ends the
  \<open>try\<close> block; only \<open>ImportError\<close> is caught.\<close>

fun first_import_error :: "host \<Rightarrow> string list \<Rightarrow> exc option" where
  "first_import_error h [] = None"
| "first_import_error h (m # ms) =
     (case import_error h m of Some x \<Rightarrow> Some x | None \<Rightarrow> first_import_error h ms)"

definition test_installation :: "host \<Rightarrow> world \<Rightarrow> (abort + unit) \<times> world" where
  "test_installation h w =
     (let w1 = print_status ''Testing installation...'' ''INFO'' w in
      case first_import_error h
             [''numpy'', ''librosa'', ''soundfile'', ''pypesq'', ''onnxruntime''] of
        None \<Rightarrow> (Inr (), print_status ''All core packages imported successfully'' ''SUCCESS'' w1)
      | Some x \<Rightarrow>
          if is_ImportError x
          then (Inr (),
                print_status ''Some packages may not be properly installed'' ''WARNING''
                  (print_status (''Import test failed: '' @ exc_str x) ''WARNING'' w1))
          else (Inl (Raised x), w1))"

text \<open>The rest of \<open>main\<close> once the package manager has been found (lines 262-304).\<close>

definition install_and_test :: "host \<Rightarrow> args \<Rightarrow> world \<Rightarrow> (abort + unit) \<times> world" where
  "install_and_test h a w =
     (case install_all h core_packages a
             (print_status ''Installing core dependencies...'' ''INFO'' w) of
        (Inl x, w1) \<Rightarrow> (Inl x, w1)
      | (Inr u, w1) \<Rightarrow>
     (case install_all h metrics_packages a
             (print_status ''Installing metrics dependencies...'' ''INFO'' w1) of
        (Inl x, w2) \<Rightarrow> (Inl x, w2)
      | (Inr u, w2) \<Rightarrow>
     (case (case check_dnsmos_submodule w2 of
              (True, w') \<Rightarrow> create_dnsmos_wrapper h w'
            | (False, w') \<Rightarrow> (Inr (), w')) of
        (Inl x, w3) \<Rightarrow> (Inl x, w3)
      | (Inr u, w3) \<Rightarrow>
          test_installation h
            (print_status ''You can now use the HADatasets metrics module.'' ''INFO''
               (print_status ''Installation completed!'' ''SUCCESS'' w3)))))"

definition main :: "host \<Rightarrow> args \<Rightarrow> world \<Rightarrow> (abort + unit) \<times> world" where
  "main h a w =
     (let w0 = print_status (replicate 50 CHR ''='') ''INFO''
                 (print_status ''HADatasets Python Dependencies Installation'' ''INFO'' w)
      in case check_python_version h w0 of
           (Inl x, w1) \<Rightarrow> (Inl x, w1)
         | (Inr u, w1) \<Rightarrow>
             if conda a then
               (case check_conda h w1 of
                  (False, w2) \<Rightarrow>
                    (Inl (SystemExit 1),
                     print_status ''Conda not found. Please install conda or use pip.'' ''ERROR'' w2)
                | (True, w2) \<Rightarrow>
                    install_and_test h a
                      (print_status ''Using conda for package installation'' ''INFO'' w2))
             else
               (case check_pip h w1 of
                  (False, w2) \<Rightarrow>
                    (Inl (SystemExit 1),
                     print_status ''Pip not found. Please install pip or use conda.'' ''ERROR'' w2)
                | (True, w2) \<Rightarrow>
                    install_and_test h a
                      (print_status ''Using pip for package installation'' ''INFO'' w2)))"

section \<open>Test doubles\<close>

text \<open>
  Concrete collaborators for the closed instances below: a world with nothing on disk, a
  scorer that returns the dictionary \<open>{SIG: 3.5, BAK: 4.0, OVRL: 3.8}\<close>, a scorer
  that raises, a scorer that is interrupted, and libraries that succeed. The stub
  resampler returns its input. The stub host runs Python 3.11 with pip and without
  conda, and cannot install or import \<open>pypesq\<close>. On the second host the
  installation of \<open>numpy\<close> fails and pip's error output is the single byte
  \<open>0xFF\<close>, which is not UTF-8.
\<close>

definition empty_world :: world where
  "empty_world = \<lparr>files = Map.empty, stdout = [], calls = []\<rparr>"

definition stub_scores :: pydict where
  "stub_scores = [(''SIG'', PyFloat 3.5), (''BAK'', PyFloat 4.0), (''OVRL'', PyFloat 3.8)]"

definition returning_scorer :: scorer where
  "returning_scorer = (\<lambda>p sr flag fs. Inr stub_scores)"

definition raising_scorer :: scorer where
  "raising_scorer = (\<lambda>p sr flag fs. Inl (Exc ''RuntimeError'' ''inference failed''))"

definition interrupted_scorer :: scorer where
  "interrupted_scorer = (\<lambda>p sr flag fs. Inl (Exc ''KeyboardInterrupt'' []))"

definition stub_env :: env where
  "stub_env =
     \<lparr>package_parent = ''/opt/python_modules'',
      import_ComputeScore = (\<lambda>sys_path. Inr (\<lambda>primary p808. Inr returning_scorer)),
      sf_read = (\<lambda>p fs. case fs p of
                   Some (Wav a sr) \<Rightarrow> Inr (a, sr)
                 | _ \<Rightarrow> Inl (Exc ''LibsndfileError'' ''Error opening file'')),
      librosa_resample = (\<lambda>y orig_sr target_sr. Inr y),
      sf_write_error = (\<lambda>p a sr. None),
      tmp_stem = (\<lambda>fs. Inr ''/tmp/tmpk3x9'')\<rparr>"

definition stub_host :: host where
  "stub_host =
     \<lparr>version_info = (3, 11),
      executable = ''/usr/bin/python3'',
      found = (\<lambda>prog. prog = ''/usr/bin/python3''),
      returncode = (\<lambda>cmd. if ''pypesq'' \<in> set cmd then 1 else 0),
      stderr_bytes = (\<lambda>cmd. ''ERROR: No matching distribution found''),
      str_CalledProcessError = (\<lambda>cmd rc. ''Command returned non-zero exit status'' ),
      import_error = (\<lambda>m. if m = ''pypesq''
                           then Some (Exc ''ModuleNotFoundError'' ''No module named pypesq'')
                           else None),
      open_error = (\<lambda>p. None),
      wrapper_content = ''import numpy as np''\<rparr>"

definition default_args :: args where
  "default_args = \<lparr>conda = False, force = False, verbose = False\<rparr>"

definition world_with_clip :: world where
  "world_with_clip = empty_world\<lparr>files := [''clip.wav'' \<mapsto> Wav (Array1 [0, 1/2]) 8000]\<rparr>"

definition undecodable_host :: host where
  "undecodable_host =
     stub_host\<lparr>returncode := (\<lambda>cmd. if ''numpy'' \<in> set cmd then 1 else 0),
                stderr_bytes := (\<lambda>cmd. [CHR 0xFF])\<rparr>"

section \<open>What a call of the scoring operation does to the world\<close>

lemma record_call_simps [simp]:
  "calls (record_call ev w) = calls w @ [ev]"
  "files (record_call ev w) = files w"
  "stdout (record_call ev w) = stdout w"
  by (simp_all add: record_call_def)

lemma print_simps [simp]:
  "calls (print l w) = calls w"
  "files (print l w) = files w"
  "stdout (print l w) = stdout w @ [l]"
  by (simp_all add: print_def)

text \<open>The \<open>with\<close> block run through: where it can end, and the world it leaves.\<close>

lemma stf_exec:
  "score_through_tmp_file e self audio w =
     (case tmp_stem e (files w) of
        Inl x \<Rightarrow> (Inl x, w)
      | Inr s \<Rightarrow>
          (let name = s @ ''.wav''; written = (files w)(name \<mapsto> Wav audio 16000) in
           if files w name \<noteq> None then (Inl (Exc ''FileExistsError'' name), w)
           else
             (case sf_write_error e name audio 16000 of
                Some x \<Rightarrow>
                  (Inl x, w\<lparr>files := (files w)(name \<mapsto> Empty),
                             calls := calls w @ [SfWrite name audio 16000]\<rparr>)
              | None \<Rightarrow>
                  (case compute_score self name 16000 False written of
                     Inl x \<Rightarrow>
                       (Inl x, w\<lparr>files := written,
                                  calls := calls w @ [SfWrite name audio 16000,
                                    Score name 16000 False (Inl x)]\<rparr>)
                   | Inr d \<Rightarrow>
                       (Inr d, w\<lparr>files := (files w)(name := None),
                                  calls := calls w @ [SfWrite name audio 16000,
                                    Score name 16000 False (Inr d), Unlink name]\<rparr>)))))"
  by (auto simp: score_through_tmp_file_def NamedTemporaryFile_def soundfile_write_def
      call_scorer_def os_unlink_def record_call_def Let_def split: sum.splits option.splits)

lemma stf_trace:
  assumes "ev \<in> set (new_calls w (snd (score_through_tmp_file e self d w)))"
  shows "\<exists>s. tmp_stem e (files w) = Inr s \<and>
           (ev = SfWrite (s @ ''.wav'') d 16000 \<or>
            ev = Score (s @ ''.wav'') 16000 False
                   (compute_score self (s @ ''.wav'') 16000 False
                      ((files w)(s @ ''.wav'' \<mapsto> Wav d 16000))) \<or>
            ev = Unlink (s @ ''.wav''))"
  using assms
  by (auto simp: stf_exec new_calls_def Let_def split: sum.splits option.splits if_splits)

lemma stf_files_stdout:
  "stdout (snd (score_through_tmp_file e self d w)) = stdout w"
  by (auto simp: stf_exec Let_def split: sum.splits option.splits if_splits)

lemma stf_extends:
  "\<exists>evs. calls (snd (score_through_tmp_file e self d w)) = calls w @ evs"
  by (auto simp: stf_exec Let_def split: sum.splits option.splits if_splits)

text \<open>What a recorded call of the scorer says about the end of the call.\<close>

lemma stf_after_scorer:
  assumes "Score p r f res \<in> set (new_calls w (snd (score_through_tmp_file e self d w)))"
  shows "fst (score_through_tmp_file e self d w) = res \<and>
         stdout (snd (score_through_tmp_file e self d w)) = stdout w \<and>
         (case res of
            Inl x \<Rightarrow> files (snd (score_through_tmp_file e self d w)) p = Some (Wav d 16000)
          | Inr clip_dict \<Rightarrow> files (snd (score_through_tmp_file e self d w)) p = None)"
  using assms
  by (auto simp: stf_exec new_calls_def Let_def split: sum.splits option.splits if_splits)

text \<open>The \<open>except\<close> clause changes neither the files nor the recorded calls.\<close>

lemma except_Exception_world [simp]:
  "calls (snd (except_Exception r)) = calls (snd r)"
  "files (snd (except_Exception r)) = files (snd r)"
  by (auto simp: except_Exception_def split: prod.splits sum.splits)

lemma except_Exception_Inl:
  "except_Exception (Inl x, w) =
     (if is_Exception x then (Inr None, print (error_line x) w) else (Inl x, w))"
  by (simp add: except_Exception_def)

text \<open>The \<open>try\<close> blocks, by the first step that fails.\<close>

lemma array_try_no_shape:
  "shape_of a = Inl x \<Longrightarrow> calculate_dnsmos_from_array_try e self a sr w = (Inl x, w)"
  by (simp add: calculate_dnsmos_from_array_try_def)

lemma array_try_mono_fails:
  "to_mono b = Inl x \<Longrightarrow>
   calculate_dnsmos_from_array_try e self (NdArray b) sr w = (Inl x, w)"
  by (simp add: calculate_dnsmos_from_array_try_def)

lemma array_try_resample_fails:
  "to_mono b = Inr m \<Longrightarrow> sr \<noteq> 16000 \<Longrightarrow> librosa_resample e m sr 16000 = Inl x \<Longrightarrow>
   calculate_dnsmos_from_array_try e self (NdArray b) sr w =
     (Inl x, record_call (Resample m sr 16000) w)"
  by (simp add: calculate_dnsmos_from_array_try_def to_16k_def resample_def)

lemma array_try_normalized:
  assumes "to_mono b = Inr m"
    and "(if sr \<noteq> 16000 then librosa_resample e m sr 16000 else Inr m) = Inr d"
  shows "calculate_dnsmos_from_array_try e self (NdArray b) sr w =
       (case score_through_tmp_file e self d
               (if sr \<noteq> 16000 then record_call (Resample m sr 16000) w else w) of
          (Inl x, w3) \<Rightarrow> (Inl x, w3)
        | (Inr clip_dict, w3) \<Rightarrow> (scores_of clip_dict, w3))"
  using assms
  by (simp add: calculate_dnsmos_from_array_try_def to_16k_def resample_def split: if_splits)

text \<open>After the decoding, the \<open>try\<close> block of \<open>calculate_dnsmos\<close> is that of
  \<open>calculate_dnsmos_from_array\<close> on what was decoded.\<close>

lemma path_try_as_array:
  "calculate_dnsmos_try e self p w =
     (case sf_read e p (files w) of
        Inl x \<Rightarrow> (Inl x, record_call (SfRead p) w)
      | Inr (a, sr) \<Rightarrow>
          calculate_dnsmos_from_array_try e self (NdArray a) sr (record_call (SfRead p) w))"
  by (simp add: calculate_dnsmos_try_def calculate_dnsmos_from_array_try_def soundfile_read_def
      split: sum.splits prod.splits)

lemma path_as_array:
  "calculate_dnsmos e self p w =
     (case sf_read e p (files w) of
        Inl x \<Rightarrow> except_Exception (Inl x, record_call (SfRead p) w)
      | Inr (a, sr) \<Rightarrow>
          calculate_dnsmos_from_array e self (NdArray a) sr (record_call (SfRead p) w))"
  by (simp add: calculate_dnsmos_def calculate_dnsmos_from_array_def path_try_as_array
      split: sum.splits prod.splits)

text \<open>
  Up to the \<open>with\<close> block a call only reads: its \<open>try\<close> block either fails
  there, or reaches the \<open>with\<close> block with some normalized buffer, in a world that
  differs from the first one by the recorded reads and resamplings only.
\<close>

lemma array_try_reduce:
  obtains (early) x w1 pre where
      "calculate_dnsmos_from_array_try e self a sr w = (Inl x, w1)"
      "files w1 = files w" "stdout w1 = stdout w" "calls w1 = calls w @ pre"
      "\<forall>ev\<in>set pre. is_Resample ev"
  | (late) d w1 pre where
      "calculate_dnsmos_from_array_try e self a sr w =
           (case score_through_tmp_file e self d w1 of
              (Inl x, w3) \<Rightarrow> (Inl x, w3)
            | (Inr clip_dict, w3) \<Rightarrow> (scores_of clip_dict, w3))"
      "files w1 = files w" "stdout w1 = stdout w" "calls w1 = calls w @ pre"
      "\<forall>ev\<in>set pre. is_Resample ev"
proof (cases "shape_of a")
  case (Inl x)
  then have "calculate_dnsmos_from_array_try e self a sr w = (Inl x, w)"
    by (rule array_try_no_shape)
  then show thesis by (rule early [where pre = "[]"]) simp_all
next
  case (Inr b)
  then have a: "a = NdArray b" by (cases a) simp_all
  show thesis
  proof (cases "to_mono b")
    case (Inl x)
    then have "calculate_dnsmos_from_array_try e self a sr w = (Inl x, w)"
      unfolding a by (rule array_try_mono_fails)
    then show thesis by (rule early [where pre = "[]"]) simp_all
  next
    case mono: (Inr m)
    show thesis
    proof (cases "if sr \<noteq> 16000 then librosa_resample e m sr 16000 else Inr m")
      case (Inl x)
      then have "sr \<noteq> 16000" and "librosa_resample e m sr 16000 = Inl x"
        by (simp_all split: if_splits)
      from array_try_resample_fails [OF mono this]
      have "calculate_dnsmos_from_array_try e self a sr w =
              (Inl x, record_call (Resample m sr 16000) w)"
        by (simp add: a)
      then show thesis by (rule early [where pre = "[Resample m sr 16000]"]) simp_all
    next
      case norm: (Inr d)
      let ?w1 = "if sr \<noteq> 16000 then record_call (Resample m sr 16000) w else w"
      have "calculate_dnsmos_from_array_try e self a sr w =
           (case score_through_tmp_file e self d ?w1 of
              (Inl x, w3) \<Rightarrow> (Inl x, w3)
            | (Inr clip_dict, w3) \<Rightarrow> (scores_of clip_dict, w3))"
        unfolding a by (rule array_try_normalized [OF mono norm])
      then show thesis
        by (rule late [where pre = "if sr \<noteq> 16000 then [Resample m sr 16000] else []"])
          simp_all
    qed
  qed
qed

lemma Resample_not_Score: "is_Resample ev \<Longrightarrow> ev \<noteq> Score p r f res"
  by (cases ev) simp_all

lemma dnsmos_reduce:
  obtains (early) x w1 pre where
      "dnsmos e self a sr w = except_Exception (Inl x, w1)"
      "files w1 = files w" "stdout w1 = stdout w" "calls w1 = calls w @ pre"
      "\<forall>ev\<in>set pre. \<forall>p r f res. ev \<noteq> Score p r f res"
  | (late) d w1 pre where
      "dnsmos e self a sr w =
         except_Exception
           (case score_through_tmp_file e self d w1 of
              (Inl x, w3) \<Rightarrow> (Inl x, w3)
            | (Inr clip_dict, w3) \<Rightarrow> (scores_of clip_dict, w3))"
      "files w1 = files w" "stdout w1 = stdout w" "calls w1 = calls w @ pre"
      "\<forall>ev\<in>set pre. \<forall>p r f res. ev \<noteq> Score p r f res"
proof (cases "\<exists>p. a = Str p")
  case False
  then have eq: "dnsmos e self a sr w =
      except_Exception (calculate_dnsmos_from_array_try e self a sr w)"
    by (cases a) (simp_all add: dnsmos_def calculate_dnsmos_from_array_def)
  show thesis
  proof (cases rule: array_try_reduce [of e self a sr w])
    case (early x w1 pre)
    show thesis
      by (rule that(1) [of x w1 pre]) (use early in \<open>auto simp: eq dest: Resample_not_Score\<close>)
  next
    case (late d w1 pre)
    show thesis
      by (rule that(2) [of d w1 pre]) (use late in \<open>auto simp: eq dest: Resample_not_Score\<close>)
  qed
next
  case True
  then obtain p where a: "a = Str p" ..
  let ?w0 = "record_call (SfRead p) w"
  show thesis
  proof (cases "sf_read e p (files w)")
    case (Inl x)
    then have "dnsmos e self a sr w = except_Exception (Inl x, ?w0)"
      by (simp add: a dnsmos_def path_as_array)
    then show thesis by (rule that(1) [where pre = "[SfRead p]"]) simp_all
  next
    case (Inr r)
    obtain b rate where r: "r = (b, rate)" by (cases r)
    have eq: "dnsmos e self a sr w =
        except_Exception (calculate_dnsmos_from_array_try e self (NdArray b) rate ?w0)"
      by (simp add: a dnsmos_def path_as_array Inr r calculate_dnsmos_from_array_def)
    show thesis
    proof (cases rule: array_try_reduce [of e self "NdArray b" rate ?w0])
      case (early x w1 pre)
      show thesis
        by (rule that(1) [of x w1 "SfRead p # pre"])
          (use early in \<open>auto simp: eq dest: Resample_not_Score\<close>)
    next
      case (late d w1 pre)
      show thesis
        by (rule that(2) [of d w1 "SfRead p # pre"])
          (use late in \<open>auto simp: eq dest: Resample_not_Score\<close>)
    qed
  qed
qed

lemma dnsmos_extends:
  "\<exists>evs. calls (snd (dnsmos e self a sr w)) = calls w @ evs"
proof (cases rule: dnsmos_reduce [of e self a sr w])
  case (early x w1 pre)
  then show ?thesis by simp
next
  case (late d w1 pre)
  with stf_extends [of e self d w1] show ?thesis
    by (auto split: prod.splits sum.splits)
qed

text \<open>Every call recorded during the \<open>try\<close> block of
  \<open>calculate_dnsmos_from_array\<close>.\<close>

lemma array_try_trace:
  assumes "ev \<in> set (new_calls w (snd (calculate_dnsmos_from_array_try e self a sr w)))"
  shows "\<exists>b m. a = NdArray b \<and> to_mono b = Inr m \<and>
           ((sr \<noteq> 16000 \<and> ev = Resample m sr 16000) \<or>
            (\<exists>d s. (if sr \<noteq> 16000 then librosa_resample e m sr 16000 else Inr m) = Inr d \<and>
               tmp_stem e (files w) = Inr s \<and>
               (ev = SfWrite (s @ ''.wav'') d 16000 \<or>
                ev = Score (s @ ''.wav'') 16000 False
                       (compute_score self (s @ ''.wav'') 16000 False
                          ((files w)(s @ ''.wav'' \<mapsto> Wav d 16000))) \<or>
                ev = Unlink (s @ ''.wav''))))"
proof (cases "shape_of a")
  case (Inl x)
  with assms show ?thesis
    by (simp add: array_try_no_shape new_calls_def)
next
  case shape: (Inr b)
  then have a: "a = NdArray b" by (cases a) simp_all
  show ?thesis
  proof (cases "to_mono b")
    case (Inl x)
    with assms show ?thesis
      by (simp add: a array_try_mono_fails new_calls_def)
  next
    case mono: (Inr m)
    show ?thesis
    proof (cases "if sr \<noteq> 16000 then librosa_resample e m sr 16000 else Inr m")
      case (Inl x)
      then have "sr \<noteq> 16000" and "librosa_resample e m sr 16000 = Inl x"
        by (simp_all split: if_splits)
      with assms mono show ?thesis
        by (simp add: a array_try_resample_fails new_calls_def)
    next
      case norm: (Inr d)
      let ?w1 = "if sr \<noteq> 16000 then record_call (Resample m sr 16000) w else w"
      let ?pre = "if sr \<noteq> 16000 then [Resample m sr 16000] else []"
      have w1: "calls ?w1 = calls w @ ?pre" "files ?w1 = files w" by simp_all
      obtain evs where evs: "calls (snd (score_through_tmp_file e self d ?w1)) = calls ?w1 @ evs"
        using stf_extends by blast
      have "calls (snd (calculate_dnsmos_from_array_try e self a sr w)) =
              calls (snd (score_through_tmp_file e self d ?w1))"
        unfolding a array_try_normalized [OF mono norm]
        by (auto split: prod.splits sum.splits)
      with assms have "ev \<in> set ?pre \<or> ev \<in> set evs"
        by (auto simp: evs w1(1) new_calls_def)
      then show ?thesis
      proof
        assume "ev \<in> set ?pre"
        then show ?thesis using mono by (auto simp: a split: if_splits)
      next
        assume "ev \<in> set evs"
        then have "ev \<in> set (new_calls ?w1 (snd (score_through_tmp_file e self d ?w1)))"
          by (simp add: evs new_calls_def)
        from stf_trace [OF this] mono norm show ?thesis
          unfolding w1(2) by (auto simp: a)
      qed
    qed
  qed
qed

text \<open>Every call recorded during \<open>dnsmos\<close>.\<close>

lemma dnsmos_trace:
  assumes "ev \<in> set (new_calls w (snd (dnsmos e self a sr w)))"
  shows "(\<exists>p. a = Str p \<and> ev = SfRead p) \<or>
         (\<exists>b sr' m. ((\<exists>p. a = Str p \<and> sf_read e p (files w) = Inr (b, sr')) \<or>
                       (a = NdArray b \<and> sr' = sr)) \<and>
            to_mono b = Inr m \<and>
           ((sr' \<noteq> 16000 \<and> ev = Resample m sr' 16000) \<or>
            (\<exists>d s. (if sr' \<noteq> 16000 then librosa_resample e m sr' 16000 else Inr m) = Inr d \<and>
               tmp_stem e (files w) = Inr s \<and>
               (ev = SfWrite (s @ ''.wav'') d 16000 \<or>
                ev = Score (s @ ''.wav'') 16000 False
                       (compute_score self (s @ ''.wav'') 16000 False
                          ((files w)(s @ ''.wav'' \<mapsto> Wav d 16000))) \<or>
                ev = Unlink (s @ ''.wav'')))))"
proof (cases a)
  case (Str p)
  show ?thesis
  proof (cases "sf_read e p (files w)")
    case (Inl x)
    with assms Str show ?thesis
      by (simp add: dnsmos_def path_as_array new_calls_def)
  next
    case (Inr r)
    obtain b sr' where r: "r = (b, sr')" by (cases r)
    let ?w1 = "record_call (SfRead p) w"
    let ?t = "calculate_dnsmos_from_array_try e self (NdArray b) sr' ?w1"
    have eq: "calls (snd (dnsmos e self a sr w)) = calls (snd ?t)"
      by (simp add: Str dnsmos_def path_as_array Inr r calculate_dnsmos_from_array_def)
    obtain evs where evs: "calls (snd ?t) = calls ?w1 @ evs"
    proof (cases rule: array_try_reduce [of e self "NdArray b" sr' ?w1])
      case (early x w1 pre)
      then show ?thesis using that by simp
    next
      case (late d w1 pre)
      with stf_extends [of e self d w1] show ?thesis
        using that by (auto split: prod.splits sum.splits)
    qed
    from assms have "ev = SfRead p \<or> ev \<in> set evs"
      by (auto simp: eq evs new_calls_def)
    then show ?thesis
    proof
      assume "ev = SfRead p" then show ?thesis by (simp add: Str)
    next
      assume "ev \<in> set evs"
      then have "ev \<in> set (new_calls ?w1 (snd ?t))"
        by (simp add: evs new_calls_def)
      from array_try_trace [OF this] show ?thesis
        by (auto simp: Str Inr r)
    qed
  qed
next
  case (NdArray b)
  with assms have "ev \<in> set (new_calls w (snd (calculate_dnsmos_from_array_try e self (NdArray b) sr w)))"
    by (simp add: dnsmos_def calculate_dnsmos_from_array_def new_calls_def)
  from array_try_trace [OF this] show ?thesis
    by (auto simp: NdArray)
next
  case Obj
  with assms show ?thesis
    by (simp add: dnsmos_def calculate_dnsmos_from_array_def array_try_no_shape new_calls_def)
qed

text \<open>The end of a call in which the scorer was called.\<close>

lemma dnsmos_after_scorer:
  assumes "Score p r f res \<in> set (new_calls w (snd (dnsmos e self a sr w)))"
  shows "case res of
           Inl x \<Rightarrow>
             fst (dnsmos e self a sr w) = (if is_Exception x then Inr None else Inl x) \<and>
             stdout (snd (dnsmos e self a sr w)) =
               (if is_Exception x then stdout w @ [error_line x] else stdout w) \<and>
             files (snd (dnsmos e self a sr w)) p \<noteq> None
         | Inr clip_dict \<Rightarrow>
             fst (dnsmos e self a sr w) =
               (case scores_of clip_dict of
                  Inl x \<Rightarrow> if is_Exception x then Inr None else Inl x
                | Inr s \<Rightarrow> Inr (Some s)) \<and>
             files (snd (dnsmos e self a sr w)) p = None"
proof (cases rule: dnsmos_reduce [of e self a sr w])
  case (early x w1 pre)
  from assms have "Score p r f res \<in> set pre"
    by (simp add: early new_calls_def)
  with early(5) show ?thesis by blast
next
  case (late d w1 pre)
  let ?r = "score_through_tmp_file e self d w1"
  obtain evs where evs: "calls (snd ?r) = calls w1 @ evs"
    using stf_extends by blast
  have "calls (snd (dnsmos e self a sr w)) = calls w @ pre @ evs"
    using evs late(4) by (auto simp: late(1) split: prod.splits sum.splits)
  with assms have "Score p r f res \<in> set pre \<union> set evs"
    by (simp add: new_calls_def)
  moreover have "Score p r f res \<notin> set pre"
    using late(5) by blast
  ultimately have "Score p r f res \<in> set evs"
    by blast
  then have "Score p r f res \<in> set (new_calls w1 (snd ?r))"
    by (simp add: evs new_calls_def)
  from stf_after_scorer [OF this] late(1-3) show ?thesis
    by (cases ?r; cases res)
      (auto simp: except_Exception_def split: sum.splits)
qed

section \<open>The claims about the scoring wrapper\<close>

text \<open>
  C1 (the code breaks it). The temporary file is unlinked only after the scorer has
  returned: when the scorer raises, the \<open>os.unlink\<close> of line 67/108 is skipped and
  nothing else removes the file. At the array \<open>[0, 0.5]\<close> at 16000 Hz with a scorer
  that raises, the call returns \<open>None\<close> and the file written for the scorer is still
  on disk.
\<close>

theorem tmp_file_left_behind_when_scorer_raises:
  "fst (dnsmos stub_env \<lparr>compute_score = raising_scorer\<rparr>
          (NdArray (Array1 [0, 1/2])) 16000 empty_world) = Inr None \<and>
   files (snd (dnsmos stub_env \<lparr>compute_score = raising_scorer\<rparr>
          (NdArray (Array1 [0, 1/2])) 16000 empty_world)) ''/tmp/tmpk3x9.wav'' =
     Some (Wav (Array1 [0, 1/2]) 16000)"
  by (simp add: dnsmos_def calculate_dnsmos_from_array_def calculate_dnsmos_from_array_try_def
      to_mono_def to_16k_def stf_exec stub_env_def raising_scorer_def empty_world_def
      except_Exception_def is_Exception_def Let_def)

text \<open>The same for every input: once the scorer has raised, the file it was given
  outlives the call; once it has returned, the file is gone.\<close>

lemma tmp_file_after_call:
  assumes "Score p r f res \<in> set (new_calls w (snd (dnsmos e self a sr w)))"
  shows "(files (snd (dnsmos e self a sr w)) p = None) = (\<exists>clip_dict. res = Inr clip_dict)"
  using dnsmos_after_scorer [OF assms] by (cases res) auto

text \<open>The \<open>try\<close> blocks themselves print nothing.\<close>

lemma try_blocks_print_nothing:
  "stdout (snd (calculate_dnsmos_try e self p w)) = stdout w"
  "stdout (snd (calculate_dnsmos_from_array_try e self a sr w)) = stdout w"
proof -
  have tail: "stdout (snd (case score_through_tmp_file e self d w1 of
              (Inl x, w3) \<Rightarrow> (Inl x, w3)
            | (Inr clip_dict, w3) \<Rightarrow> (scores_of clip_dict, w3))) = stdout w1" for d w1
    using stf_files_stdout [of e self d w1]
    by (auto split: prod.splits sum.splits)
  have k: "stdout (snd (case to_16k e m rate w1 of
        (Inl x, w2) \<Rightarrow> (Inl x, w2)
      | (Inr audio2, w2) \<Rightarrow>
     (case score_through_tmp_file e self audio2 w2 of
        (Inl x, w3) \<Rightarrow> (Inl x, w3)
      | (Inr clip_dict, w3) \<Rightarrow> (scores_of clip_dict, w3)))) = stdout w1" for m rate w1
    by (cases "librosa_resample e m rate 16000")
       (simp_all add: to_16k_def resample_def tail)
  show "stdout (snd (calculate_dnsmos_from_array_try e self a sr w)) = stdout w"
    by (simp add: calculate_dnsmos_from_array_try_def k split: sum.splits)
  show "stdout (snd (calculate_dnsmos_try e self p w)) = stdout w"
    by (simp add: calculate_dnsmos_try_def soundfile_read_def k split: sum.splits prod.splits)
qed

text \<open>
  The first step that raises ends the \<open>try\<close> block, and the exception it raised
  is the one the \<open>except\<close> clause sees.
\<close>

lemma array_try_fails:
  assumes "files w0 = files w"
    and "to_mono b = Inl x \<or>
         (to_mono b = Inr m \<and>
           ((rate \<noteq> 16000 \<and> librosa_resample e m rate 16000 = Inl x) \<or>
            (\<exists>d. (if rate = 16000 then d = m else librosa_resample e m rate 16000 = Inr d) \<and>
               (tmp_stem e (files w) = Inl x \<or>
                (\<exists>s. tmp_stem e (files w) = Inr s \<and>
                   ((files w (s @ ''.wav'') \<noteq> None \<and> x = Exc ''FileExistsError'' (s @ ''.wav'')) \<or>
                    (files w (s @ ''.wav'') = None \<and>
                      (sf_write_error e (s @ ''.wav'') d 16000 = Some x \<or>
                       (sf_write_error e (s @ ''.wav'') d 16000 = None \<and>
                         (compute_score self (s @ ''.wav'') 16000 False
                            ((files w)(s @ ''.wav'' \<mapsto> Wav d 16000)) = Inl x \<or>
                          (\<exists>clip_dict.
                             compute_score self (s @ ''.wav'') 16000 False
                               ((files w)(s @ ''.wav'' \<mapsto> Wav d 16000)) = Inr clip_dict \<and>
                             scores_of clip_dict = Inl x)))))))))))"
  shows "fst (calculate_dnsmos_from_array_try e self (NdArray b) rate w0) = Inl x"
  using assms(2)
proof (elim disjE conjE exE)
  assume "to_mono b = Inl x"
  then show ?thesis by (simp add: array_try_mono_fails)
next
  assume "to_mono b = Inr m" "rate \<noteq> 16000" "librosa_resample e m rate 16000 = Inl x"
  then show ?thesis by (simp add: array_try_resample_fails)
next
  fix d
  assume mono: "to_mono b = Inr m"
    and d: "if rate = 16000 then d = m else librosa_resample e m rate 16000 = Inr d"
    and t: "tmp_stem e (files w) = Inl x"
  from d have norm: "(if rate \<noteq> 16000 then librosa_resample e m rate 16000 else Inr m) = Inr d"
    by (simp split: if_splits)
  show ?thesis
    unfolding array_try_normalized [OF mono norm]
    using t assms(1) by (simp add: stf_exec)
next
  fix d s
  assume mono: "to_mono b = Inr m"
    and d: "if rate = 16000 then d = m else librosa_resample e m rate 16000 = Inr d"
    and t: "tmp_stem e (files w) = Inr s" "files w (s @ ''.wav'') \<noteq> None"
      "x = Exc ''FileExistsError'' (s @ ''.wav'')"
  from d have norm: "(if rate \<noteq> 16000 then librosa_resample e m rate 16000 else Inr m) = Inr d"
    by (simp split: if_splits)
  show ?thesis
    unfolding array_try_normalized [OF mono norm]
    using t assms(1) by (auto simp: stf_exec Let_def)
next
  fix d s
  assume mono: "to_mono b = Inr m"
    and d: "if rate = 16000 then d = m else librosa_resample e m rate 16000 = Inr d"
    and t: "tmp_stem e (files w) = Inr s" "files w (s @ ''.wav'') = None"
      "sf_write_error e (s @ ''.wav'') d 16000 = Some x"
  from d have norm: "(if rate \<noteq> 16000 then librosa_resample e m rate 16000 else Inr m) = Inr d"
    by (simp split: if_splits)
  show ?thesis
    unfolding array_try_normalized [OF mono norm]
    using t assms(1) by (auto simp: stf_exec Let_def)
next
  fix d s
  assume mono: "to_mono b = Inr m"
    and d: "if rate = 16000 then d = m else librosa_resample e m rate 16000 = Inr d"
    and t: "tmp_stem e (files w) = Inr s" "files w (s @ ''.wav'') = None"
      "sf_write_error e (s @ ''.wav'') d 16000 = None"
      "compute_score self (s @ ''.wav'') 16000 False
         ((files w)(s @ ''.wav'' \<mapsto> Wav d 16000)) = Inl x"
  from d have norm: "(if rate \<noteq> 16000 then librosa_resample e m rate 16000 else Inr m) = Inr d"
    by (simp split: if_splits)
  show ?thesis
    unfolding array_try_normalized [OF mono norm]
    using t assms(1) by (auto simp: stf_exec Let_def)
next
  fix d s clip_dict
  assume mono: "to_mono b = Inr m"
    and d: "if rate = 16000 then d = m else librosa_resample e m rate 16000 = Inr d"
    and t: "tmp_stem e (files w) = Inr s" "files w (s @ ''.wav'') = None"
      "sf_write_error e (s @ ''.wav'') d 16000 = None"
      "compute_score self (s @ ''.wav'') 16000 False
         ((files w)(s @ ''.wav'' \<mapsto> Wav d 16000)) = Inr clip_dict"
      "scores_of clip_dict = Inl x"
  from d have norm: "(if rate \<noteq> 16000 then librosa_resample e m rate 16000 else Inr m) = Inr d"
    by (simp split: if_splits)
  show ?thesis
    unfolding array_try_normalized [OF mono norm]
    using t assms(1) by (auto simp: stf_exec Let_def)
qed

lemma step_failure_ends_try:
  assumes "(\<exists>p. a = Str p \<and> sf_read e p (files w) = Inl x) \<or>
     ((\<forall>p. a \<noteq> Str p) \<and> shape_of a = Inl x) \<or>
     (\<exists>b rate m.
        ((\<exists>p. a = Str p \<and> sf_read e p (files w) = Inr (b, rate)) \<or> (a = NdArray b \<and> rate = sr)) \<and>
        (to_mono b = Inl x \<or>
         (to_mono b = Inr m \<and>
           ((rate \<noteq> 16000 \<and> librosa_resample e m rate 16000 = Inl x) \<or>
            (\<exists>d. (if rate = 16000 then d = m else librosa_resample e m rate 16000 = Inr d) \<and>
               (tmp_stem e (files w) = Inl x \<or>
                (\<exists>s. tmp_stem e (files w) = Inr s \<and>
                   ((files w (s @ ''.wav'') \<noteq> None \<and> x = Exc ''FileExistsError'' (s @ ''.wav'')) \<or>
                    (files w (s @ ''.wav'') = None \<and>
                      (sf_write_error e (s @ ''.wav'') d 16000 = Some x \<or>
                       (sf_write_error e (s @ ''.wav'') d 16000 = None \<and>
                         (compute_score self (s @ ''.wav'') 16000 False
                            ((files w)(s @ ''.wav'' \<mapsto> Wav d 16000)) = Inl x \<or>
                          (\<exists>clip_dict.
                             compute_score self (s @ ''.wav'') 16000 False
                               ((files w)(s @ ''.wav'' \<mapsto> Wav d 16000)) = Inr clip_dict \<and>
                             scores_of clip_dict = Inl x)))))))))))))"
  shows "\<exists>w'. dnsmos e self a sr w = except_Exception (Inl x, w') \<and> stdout w' = stdout w"
  using assms
proof (elim disjE)
  assume "\<exists>p. a = Str p \<and> sf_read e p (files w) = Inl x"
  then obtain p where "a = Str p" "sf_read e p (files w) = Inl x" by blast
  then have "dnsmos e self a sr w = except_Exception (Inl x, record_call (SfRead p) w)"
    by (simp add: dnsmos_def path_as_array)
  then show ?thesis by (intro exI [of _ "record_call (SfRead p) w"]) simp
next
  assume "(\<forall>p. a \<noteq> Str p) \<and> shape_of a = Inl x"
  then have "dnsmos e self a sr w = except_Exception (Inl x, w)"
    by (cases a) (simp_all add: dnsmos_def calculate_dnsmos_from_array_def array_try_no_shape)
  then show ?thesis by (intro exI [of _ w]) simp
next
  assume "\<exists>b rate m.
        ((\<exists>p. a = Str p \<and> sf_read e p (files w) = Inr (b, rate)) \<or> (a = NdArray b \<and> rate = sr)) \<and>
        (to_mono b = Inl x \<or>
         (to_mono b = Inr m \<and>
           ((rate \<noteq> 16000 \<and> librosa_resample e m rate 16000 = Inl x) \<or>
            (\<exists>d. (if rate = 16000 then d = m else librosa_resample e m rate 16000 = Inr d) \<and>
               (tmp_stem e (files w) = Inl x \<or>
                (\<exists>s. tmp_stem e (files w) = Inr s \<and>
                   ((files w (s @ ''.wav'') \<noteq> None \<and> x = Exc ''FileExistsError'' (s @ ''.wav'')) \<or>
                    (files w (s @ ''.wav'') = None \<and>
                      (sf_write_error e (s @ ''.wav'') d 16000 = Some x \<or>
                       (sf_write_error e (s @ ''.wav'') d 16000 = None \<and>
                         (compute_score self (s @ ''.wav'') 16000 False
                            ((files w)(s @ ''.wav'' \<mapsto> Wav d 16000)) = Inl x \<or>
                          (\<exists>clip_dict.
                             compute_score self (s @ ''.wav'') 16000 False
                               ((files w)(s @ ''.wav'' \<mapsto> Wav d 16000)) = Inr clip_dict \<and>
                             scores_of clip_dict = Inl x))))))))))))"
  then obtain b rate m where
    src: "(\<exists>p. a = Str p \<and> sf_read e p (files w) = Inr (b, rate)) \<or> (a = NdArray b \<and> rate = sr)"
    and step: "to_mono b = Inl x \<or>
         (to_mono b = Inr m \<and>
           ((rate \<noteq> 16000 \<and> librosa_resample e m rate 16000 = Inl x) \<or>
            (\<exists>d. (if rate = 16000 then d = m else librosa_resample e m rate 16000 = Inr d) \<and>
               (tmp_stem e (files w) = Inl x \<or>
                (\<exists>s. tmp_stem e (files w) = Inr s \<and>
                   ((files w (s @ ''.wav'') \<noteq> None \<and> x = Exc ''FileExistsError'' (s @ ''.wav'')) \<or>
                    (files w (s @ ''.wav'') = None \<and>
                      (sf_write_error e (s @ ''.wav'') d 16000 = Some x \<or>
                       (sf_write_error e (s @ ''.wav'') d 16000 = None \<and>
                         (compute_score self (s @ ''.wav'') 16000 False
                            ((files w)(s @ ''.wav'' \<mapsto> Wav d 16000)) = Inl x \<or>
                          (\<exists>clip_dict.
                             compute_score self (s @ ''.wav'') 16000 False
                               ((files w)(s @ ''.wav'' \<mapsto> Wav d 16000)) = Inr clip_dict \<and>
                             scores_of clip_dict = Inl x)))))))))))"
    by blast
  from src obtain w0 where w0: "files w0 = files w" "stdout w0 = stdout w"
    and eq: "dnsmos e self a sr w =
               except_Exception (calculate_dnsmos_from_array_try e self (NdArray b) rate w0)"
  proof
    assume "\<exists>p. a = Str p \<and> sf_read e p (files w) = Inr (b, rate)"
    then obtain p where "a = Str p" "sf_read e p (files w) = Inr (b, rate)" by blast
    then have "dnsmos e self a sr w =
        except_Exception
          (calculate_dnsmos_from_array_try e self (NdArray b) rate (record_call (SfRead p) w))"
      by (simp add: dnsmos_def path_as_array calculate_dnsmos_from_array_def)
    then show ?thesis by (intro that [of "record_call (SfRead p) w"]) simp_all
  next
    assume "a = NdArray b \<and> rate = sr"
    then have "dnsmos e self a sr w =
        except_Exception (calculate_dnsmos_from_array_try e self (NdArray b) rate w)"
      by (simp add: dnsmos_def calculate_dnsmos_from_array_def)
    then show ?thesis by (intro that [of w]) simp_all
  qed
  let ?t = "calculate_dnsmos_from_array_try e self (NdArray b) rate w0"
  from array_try_fails [OF w0(1) step] have "fst ?t = Inl x" .
  then have "?t = (Inl x, snd ?t)" by (cases ?t) simp
  moreover have "stdout (snd ?t) = stdout w"
    using try_blocks_print_nothing(2) [of e self "NdArray b" rate w0] w0(2) by simp
  ultimately show ?thesis
    unfolding eq by (intro exI [of _ "snd ?t"]) simp
qed



text \<open>An exception outside \<open>Exception\<close> is not caught: it leaves the call, and
  nothing is printed.\<close>

lemma signal_leaves_the_call:
  assumes "\<not> is_Exception x"
    and "(\<exists>p. a = Str p \<and> sf_read e p (files w) = Inl x) \<or>
     ((\<forall>p. a \<noteq> Str p) \<and> shape_of a = Inl x) \<or>
     (\<exists>b rate m.
        ((\<exists>p. a = Str p \<and> sf_read e p (files w) = Inr (b, rate)) \<or> (a = NdArray b \<and> rate = sr)) \<and>
        (to_mono b = Inl x \<or>
         (to_mono b = Inr m \<and>
           ((rate \<noteq> 16000 \<and> librosa_resample e m rate 16000 = Inl x) \<or>
            (\<exists>d. (if rate = 16000 then d = m else librosa_resample e m rate 16000 = Inr d) \<and>
               (tmp_stem e (files w) = Inl x \<or>
                (\<exists>s. tmp_stem e (files w) = Inr s \<and>
                   ((files w (s @ ''.wav'') \<noteq> None \<and> x = Exc ''FileExistsError'' (s @ ''.wav'')) \<or>
                    (files w (s @ ''.wav'') = None \<and>
                      (sf_write_error e (s @ ''.wav'') d 16000 = Some x \<or>
                       (sf_write_error e (s @ ''.wav'') d 16000 = None \<and>
                         (compute_score self (s @ ''.wav'') 16000 False
                            ((files w)(s @ ''.wav'' \<mapsto> Wav d 16000)) = Inl x \<or>
                          (\<exists>clip_dict.
                             compute_score self (s @ ''.wav'') 16000 False
                               ((files w)(s @ ''.wav'' \<mapsto> Wav d 16000)) = Inr clip_dict \<and>
                             scores_of clip_dict = Inl x)))))))))))))"
  shows "fst (dnsmos e self a sr w) = Inl x \<and> stdout (snd (dnsmos e self a sr w)) = stdout w"
proof -
  from step_failure_ends_try [OF assms(2)] obtain w' where
    "dnsmos e self a sr w = except_Exception (Inl x, w')" and "stdout w' = stdout w"
    by blast
  with assms(1) show ?thesis
    by (simp add: except_Exception_Inl)
qed

lemma interrupted_scorer_leaves_the_call:
  "fst (dnsmos stub_env \<lparr>compute_score = interrupted_scorer\<rparr>
          (NdArray (Array1 [0, 1/2])) 16000 empty_world) = Inl (Exc ''KeyboardInterrupt'' [])"
  by (simp add: dnsmos_def calculate_dnsmos_from_array_def calculate_dnsmos_from_array_try_def
      to_mono_def to_16k_def stf_exec stub_env_def interrupted_scorer_def empty_world_def
      except_Exception_def is_Exception_def Let_def)

text \<open>
  C9. Every call of the scorer made during \<open>dnsmos\<close> has the arguments
  \<open>(name, 16000, False)\<close>, where \<open>name\<close> is the temporary file: the name
  \<open>NamedTemporaryFile\<close> chose, ending in \<open>.wav\<close>, whatever the input and the
  caller's sample rate are.
\<close>

theorem scorer_called_with_tmp_16000_False:
  "\<forall>ev \<in> set (new_calls w (snd (dnsmos e self a sr w))).
     \<forall>p r f res. ev = Score p r f res \<longrightarrow>
       r = 16000 \<and> f = False \<and> (\<exists>s. tmp_stem e (files w) = Inr s \<and> p = s @ ''.wav'')"
proof (intro ballI allI impI)
  fix ev p r f res
  assume "ev \<in> set (new_calls w (snd (dnsmos e self a sr w)))" and "ev = Score p r f res"
  with dnsmos_trace [of ev w e self a sr]
  show "r = 16000 \<and> f = False \<and> (\<exists>s. tmp_stem e (files w) = Inr s \<and> p = s @ ''.wav'')"
    by auto
qed

lemma stub_run_calls:
  "new_calls empty_world
     (snd (dnsmos stub_env \<lparr>compute_score = returning_scorer\<rparr>
             (NdArray (Array2 [[0, 1/2], [1, 1]])) 8000 empty_world)) =
   [Resample (Array1 [1/4, 1]) 8000 16000,
    SfWrite ''/tmp/tmpk3x9.wav'' (Array1 [1/4, 1]) 16000,
    Score ''/tmp/tmpk3x9.wav'' 16000 False (Inr stub_scores),
    Unlink ''/tmp/tmpk3x9.wav'']"
  by (simp add: dnsmos_def calculate_dnsmos_from_array_def calculate_dnsmos_from_array_try_def
      to_mono_def to_16k_def resample_def stf_exec stub_env_def returning_scorer_def
      empty_world_def except_Exception_def Let_def new_calls_def mean_def record_call_def
      split: sum.splits)

theorem scorer_called_with_tmp_16000_False_witness:
  "Score ''/tmp/tmpk3x9.wav'' 16000 False (Inr stub_scores) \<in>
     set (new_calls empty_world
       (snd (dnsmos stub_env \<lparr>compute_score = returning_scorer\<rparr>
               (NdArray (Array2 [[0, 1/2], [1, 1]])) 8000 empty_world))) \<and>
   tmp_stem stub_env (files empty_world) = Inr ''/tmp/tmpk3x9''"
  using scorer_called_with_tmp_16000_False
    [of empty_world stub_env "\<lparr>compute_score = returning_scorer\<rparr>"
        "NdArray (Array2 [[0, 1/2], [1, 1]])" 8000]
  by (simp add: stub_run_calls) (simp add: stub_env_def)

text \<open>
  C8. With a path, \<open>dnsmos\<close> does not look at its \<open>sample_rate\<close> argument: two
  calls that differ in it only are the same computation, \<open>calculate_dnsmos\<close> on the
  path, and what the file decodes to is scored at the rate the decoder returned.
\<close>

theorem path_form_ignores_sample_rate:
  "dnsmos e self (Str p) sr1 w = dnsmos e self (Str p) sr2 w \<and>
   dnsmos e self (Str p) sr1 w = calculate_dnsmos e self p w \<and>
   (sf_read e p (files w) = Inr (audio, native) \<longrightarrow>
      dnsmos e self (Str p) sr1 w =
        calculate_dnsmos_from_array e self (NdArray audio) native (record_call (SfRead p) w))"
  by (simp add: dnsmos_def path_as_array)

theorem path_form_ignores_sample_rate_witness:
  "sf_read stub_env ''clip.wav'' (files world_with_clip) = Inr (Array1 [0, 1/2], 8000) \<and>
   dnsmos stub_env \<lparr>compute_score = returning_scorer\<rparr> (Str ''clip.wav'') 44100 world_with_clip =
     dnsmos stub_env \<lparr>compute_score = returning_scorer\<rparr> (Str ''clip.wav'') 16000 world_with_clip \<and>
   dnsmos stub_env \<lparr>compute_score = returning_scorer\<rparr> (Str ''clip.wav'') 44100 world_with_clip =
     calculate_dnsmos_from_array stub_env \<lparr>compute_score = returning_scorer\<rparr>
       (NdArray (Array1 [0, 1/2])) 8000 (record_call (SfRead ''clip.wav'') world_with_clip)"
proof -
  have r: "sf_read stub_env ''clip.wav'' (files world_with_clip) = Inr (Array1 [0, 1/2], 8000)"
    by (simp add: stub_env_def world_with_clip_def empty_world_def)
  from r path_form_ignores_sample_rate
    [of stub_env "\<lparr>compute_score = returning_scorer\<rparr>" "''clip.wav''" 44100 world_with_clip
        16000 "Array1 [0, 1/2]" 8000]
  show ?thesis by blast
qed

text \<open>
  C6. When the scorer has returned a dictionary whose entries \<open>SIG\<close>, \<open>BAK\<close> and
  \<open>OVRL\<close> are accepted by \<open>float()\<close>, \<open>dnsmos\<close> returns the dictionary with
  exactly these three keys, in this order, each with the scorer's value as a float.
\<close>

theorem scores_returned_as_floats:
  assumes "Score p r f (Inr clip_dict) \<in> set (new_calls w (snd (dnsmos e self a sr w)))"
    and "map_of clip_dict ''SIG'' = Some v1" and "py_float v1 = Inr sig"
    and "map_of clip_dict ''BAK'' = Some v2" and "py_float v2 = Inr bak"
    and "map_of clip_dict ''OVRL'' = Some v3" and "py_float v3 = Inr ovrl"
  shows "fst (dnsmos e self a sr w) =
           Inr (Some [(''SIG'', sig), (''BAK'', bak), (''OVRL'', ovrl)])"
proof -
  have "scores_of clip_dict = Inr [(''SIG'', sig), (''BAK'', bak), (''OVRL'', ovrl)]"
    using assms(2-7) by (simp add: scores_of_def getitem_def)
  with dnsmos_after_scorer [OF assms(1)] show ?thesis by simp
qed

theorem scores_returned_as_floats_witness:
  "fst (dnsmos stub_env \<lparr>compute_score = returning_scorer\<rparr>
          (NdArray (Array2 [[0, 1/2], [1, 1]])) 8000 empty_world) =
     Inr (Some [(''SIG'', 3.5), (''BAK'', 4.0), (''OVRL'', 3.8)])"
proof -
  have "Score ''/tmp/tmpk3x9.wav'' 16000 False (Inr stub_scores) \<in>
     set (new_calls empty_world
       (snd (dnsmos stub_env \<lparr>compute_score = returning_scorer\<rparr>
               (NdArray (Array2 [[0, 1/2], [1, 1]])) 8000 empty_world)))"
    by (simp add: stub_run_calls)
  from scores_returned_as_floats
    [OF this, of "PyFloat 3.5" "3.5" "PyFloat 4.0" "4.0" "PyFloat 3.8" "3.8"]
  show ?thesis
    by (simp add: stub_scores_def)
qed

text \<open>
  C4. Let \<open>b\<close> be the input buffer and \<open>rate\<close> its sample rate: the array and
  \<open>sample_rate\<close> given to \<open>dnsmos\<close>, or what \<open>sf.read\<close> returned for the path.
  Resampling happens only when \<open>rate\<close> is not 16000, from \<open>rate\<close> to 16000 and on
  the mono buffer. The file the scorer reads holds, declared at 16000 Hz, the resampled
  mono buffer when \<open>rate\<close> is not 16000 and the mono buffer itself when it is.
\<close>

theorem buffer_for_scorer_is_at_16000:
  assumes "ev \<in> set (new_calls w (snd (dnsmos e self a sr w)))"
    and "(\<exists>p. a = Str p \<and> sf_read e p (files w) = Inr (b, rate)) \<or> (a = NdArray b \<and> rate = sr)"
  shows "(\<forall>y orig target. ev = Resample y orig target \<longrightarrow>
            rate \<noteq> 16000 \<and> to_mono b = Inr y \<and> orig = rate \<and> target = 16000) \<and>
         (\<forall>name r f res. ev = Score name r f res \<longrightarrow>
            (\<exists>m d. to_mono b = Inr m \<and>
               (if rate = 16000 then d = m else librosa_resample e m rate 16000 = Inr d) \<and>
               res = compute_score self name r f ((files w)(name \<mapsto> Wav d 16000))))"
  using dnsmos_trace [OF assms(1)] assms(2)
  by (elim disjE exE conjE) (auto split: if_splits)

theorem buffer_for_scorer_is_at_16000_witness:
  "Score ''/tmp/tmpk3x9.wav'' 16000 False (Inr stub_scores) \<in>
     set (new_calls empty_world
       (snd (dnsmos stub_env \<lparr>compute_score = returning_scorer\<rparr>
               (NdArray (Array2 [[0, 1/2], [1, 1]])) 8000 empty_world))) \<and>
   (\<exists>m d. to_mono (Array2 [[0, 1/2], [1, 1]]) = Inr m \<and>
      librosa_resample stub_env m 8000 16000 = Inr d \<and>
      Inr stub_scores =
        returning_scorer ''/tmp/tmpk3x9.wav'' 16000 False
          ((files empty_world)(''/tmp/tmpk3x9.wav'' \<mapsto> Wav d 16000)))"
proof -
  have ev: "Score ''/tmp/tmpk3x9.wav'' 16000 False (Inr stub_scores) \<in>
     set (new_calls empty_world
       (snd (dnsmos stub_env \<lparr>compute_score = returning_scorer\<rparr>
               (NdArray (Array2 [[0, 1/2], [1, 1]])) 8000 empty_world)))"
    by (simp add: stub_run_calls)
  have src: "(\<exists>p. NdArray (Array2 [[0, 1/2], [1, 1]]) = Str p \<and>
                sf_read stub_env p (files empty_world) = Inr (Array2 [[0, 1/2], [1, 1]], 8000)) \<or>
             (NdArray (Array2 [[0, 1/2], [1, 1]]) = NdArray (Array2 [[0, 1/2], [1, 1]]) \<and>
                (8000::int) = 8000)"
    by simp
  from buffer_for_scorer_is_at_16000 [OF ev src]
  have "\<exists>m d. to_mono (Array2 [[0, 1/2], [1, 1]]) = Inr m \<and>
          (if (8000::int) = 16000 then d = m else librosa_resample stub_env m 8000 16000 = Inr d) \<and>
          Inr stub_scores =
            compute_score \<lparr>compute_score = returning_scorer\<rparr> ''/tmp/tmpk3x9.wav'' 16000 False
              ((files empty_world)(''/tmp/tmpk3x9.wav'' \<mapsto> Wav d 16000))"
    by blast
  with ev show ?thesis by simp
qed

text \<open>
  C5. A buffer of shape \<open>(frames, nch)\<close> with at least one channel is averaged to the
  buffer that holds, at each frame index, the sum of the frame's samples over the
  channels divided by the number of channels. That buffer, a function of the input alone,
  is what is resampled and, at 16000 Hz, what is written for the scorer. (With no channel
  at all numpy yields \<open>nan\<close>, which the model's real numbers do not have.)
\<close>

theorem mono_is_mean_over_channels:
  assumes "\<forall>row \<in> set rows. length row = nch" and "0 < nch"
    and "(\<exists>p. a = Str p \<and> sf_read e p (files w) = Inr (Array2 rows, rate)) \<or>
         (a = NdArray (Array2 rows) \<and> rate = sr)"
  shows "\<exists>ms. to_mono (Array2 rows) = Inr (Array1 ms) \<and>
           length ms = length rows \<and>
           (\<forall>i < length rows. ms ! i = (\<Sum>c = 0..<nch. rows ! i ! c) / real nch) \<and>
           (\<forall>ev \<in> set (new_calls w (snd (dnsmos e self a sr w))).
              (\<forall>y orig target. ev = Resample y orig target \<longrightarrow> y = Array1 ms) \<and>
              (\<forall>name d r. ev = SfWrite name d r \<longrightarrow>
                 (if rate = 16000 then d = Array1 ms
                  else librosa_resample e (Array1 ms) rate 16000 = Inr d)))"
proof (intro exI conjI)
  show mono: "to_mono (Array2 rows) = Inr (Array1 (map mean rows))"
    by (simp add: to_mono_def)
  show "length (map mean rows) = length rows" by simp
  show "\<forall>i < length rows. map mean rows ! i = (\<Sum>c = 0..<nch. rows ! i ! c) / real nch"
    using assms(1) by (simp add: mean_def sum_list_sum_nth)
  show "\<forall>ev \<in> set (new_calls w (snd (dnsmos e self a sr w))).
              (\<forall>y orig target. ev = Resample y orig target \<longrightarrow> y = Array1 (map mean rows)) \<and>
              (\<forall>name d r. ev = SfWrite name d r \<longrightarrow>
                 (if rate = 16000 then d = Array1 (map mean rows)
                  else librosa_resample e (Array1 (map mean rows)) rate 16000 = Inr d))"
  proof
    fix ev
    assume "ev \<in> set (new_calls w (snd (dnsmos e self a sr w)))"
    from dnsmos_trace [OF this] assms(3) mono
    show "(\<forall>y orig target. ev = Resample y orig target \<longrightarrow> y = Array1 (map mean rows)) \<and>
              (\<forall>name d r. ev = SfWrite name d r \<longrightarrow>
                 (if rate = 16000 then d = Array1 (map mean rows)
                  else librosa_resample e (Array1 (map mean rows)) rate 16000 = Inr d))"
      by (elim disjE exE conjE) (auto split: if_splits)
  qed
qed

theorem mono_is_mean_over_channels_witness:
  "length [0, 1/2::real] = 2 \<and> length [1, 1::real] = 2 \<and> (0::nat) < 2 \<and>
   to_mono (Array2 [[0, 1/2], [1, 1]]) = Inr (Array1 [1/4, 1]) \<and>
   SfWrite ''/tmp/tmpk3x9.wav'' (Array1 [1/4, 1]) 16000 \<in>
     set (new_calls empty_world
       (snd (dnsmos stub_env \<lparr>compute_score = returning_scorer\<rparr>
               (NdArray (Array2 [[0, 1/2], [1, 1]])) 16000 empty_world)))"
proof -
  have h: "\<forall>row \<in> set [[0, 1/2], [1, 1::real]]. length row = 2" by simp
  have run: "new_calls empty_world
       (snd (dnsmos stub_env \<lparr>compute_score = returning_scorer\<rparr>
               (NdArray (Array2 [[0, 1/2], [1, 1]])) 16000 empty_world)) =
     [SfWrite ''/tmp/tmpk3x9.wav'' (Array1 [1/4, 1]) 16000,
      Score ''/tmp/tmpk3x9.wav'' 16000 False (Inr stub_scores),
      Unlink ''/tmp/tmpk3x9.wav'']"
    by (simp add: dnsmos_def calculate_dnsmos_from_array_def calculate_dnsmos_from_array_try_def
      to_mono_def to_16k_def stf_exec stub_env_def returning_scorer_def
      empty_world_def except_Exception_def Let_def new_calls_def mean_def
      split: sum.splits)
  from mono_is_mean_over_channels
    [OF h, of "NdArray (Array2 [[0, 1/2], [1, 1]])" stub_env empty_world 16000 16000
      "\<lparr>compute_score = returning_scorer\<rparr>"]
  obtain ms where "to_mono (Array2 [[0, 1/2], [1, 1]]) = Inr (Array1 ms)"
    and "\<forall>i < 2. ms ! i = (\<Sum>c = 0..<2. [[0, 1/2], [1, 1::real]] ! i ! c) / real (2::nat)"
    by auto
  then show ?thesis using h run
    by (simp add: to_mono_def mean_def)
qed

section \<open>The global instance\<close>

text \<open>No call of \<open>dnsmos\<close> constructs a scorer, and each calls the scorer of the
  wrapper it is given.\<close>

lemma dnsmos_events:
  assumes "ev \<in> set (new_calls w (snd (dnsmos e self a sr w)))"
  shows "\<not> is_Construct ev \<and>
         (\<forall>p r f res. ev = Score p r f res \<longrightarrow> (\<exists>fs. res = compute_score self p r f fs))"
  using dnsmos_trace [OF assms] by (elim disjE exE conjE) auto

lemma dnsmos_calls_events:
  "\<exists>evs. calls (snd (dnsmos_calls e self cs w)) = calls w @ evs \<and>
         (\<forall>rs. fst (dnsmos_calls e self cs w) = Inr rs \<longrightarrow> length rs = length cs) \<and>
         (\<forall>ev\<in>set evs. \<not> is_Construct ev \<and>
            (\<forall>p r f res. ev = Score p r f res \<longrightarrow> (\<exists>fs. res = compute_score self p r f fs)))"
proof (induction cs arbitrary: w)
  case Nil
  show ?case by simp
next
  case (Cons c cs)
  obtain a sr where c: "c = (a, sr)" by (cases c)
  obtain r w1 where d: "dnsmos e self a sr w = (r, w1)" by (cases "dnsmos e self a sr w")
  obtain evs1 where evs1: "calls w1 = calls w @ evs1"
    using dnsmos_extends [of e self a sr w] d by auto
  have ok1: "\<forall>ev\<in>set evs1. \<not> is_Construct ev \<and>
            (\<forall>p r f res. ev = Score p r f res \<longrightarrow> (\<exists>fs. res = compute_score self p r f fs))"
    using dnsmos_events [of _ w e self a sr] d evs1 by (simp add: new_calls_def)
  show ?case
  proof (cases r)
    case (Inl x)
    then have "dnsmos_calls e self (c # cs) w = (Inl x, w1)"
      by (simp add: c d)
    with evs1 ok1 show ?thesis by (intro exI [of _ evs1]) simp
  next
    case (Inr res)
    obtain rs2 w2 where run2: "dnsmos_calls e self cs w1 = (rs2, w2)"
      by (cases "dnsmos_calls e self cs w1")
    from Cons.IH [of w1] run2 obtain evs2 where
      evs2: "calls w2 = calls w1 @ evs2"
      and len: "\<forall>rs. rs2 = Inr rs \<longrightarrow> length rs = length cs"
      and ok2: "\<forall>ev\<in>set evs2. \<not> is_Construct ev \<and>
              (\<forall>p r f res. ev = Score p r f res \<longrightarrow> (\<exists>fs. res = compute_score self p r f fs))"
      by auto
    have "calls (snd (dnsmos_calls e self (c # cs) w)) = calls w @ (evs1 @ evs2)"
      by (cases rs2) (simp_all add: c d Inr run2 evs1 evs2)
    moreover have "\<forall>rs. fst (dnsmos_calls e self (c # cs) w) = Inr rs \<longrightarrow>
                     length rs = length (c # cs)"
      using len by (cases rs2) (auto simp: c d Inr run2)
    moreover have "\<forall>ev\<in>set (evs1 @ evs2). \<not> is_Construct ev \<and>
              (\<forall>p r f res. ev = Score p r f res \<longrightarrow> (\<exists>fs. res = compute_score self p r f fs))"
      using ok1 ok2 by auto
    ultimately show ?thesis by blast
  qed
qed

lemma import_constructs:
  assumes "import_dnsmos_wrapper e w = (Inr self, w1)"
  shows "calls w1 = calls w @ [Construct (dnsmos_models_dir e @ ''/sig_bak_ovr.onnx'')
                                  (dnsmos_models_dir e @ ''/model_v8.onnx'')] \<and>
         (\<exists>sys_path ComputeScore. import_ComputeScore e sys_path = Inr ComputeScore \<and>
            ComputeScore (dnsmos_models_dir e @ ''/sig_bak_ovr.onnx'')
              (dnsmos_models_dir e @ ''/model_v8.onnx'') = Inr (compute_score self))"
proof -
  let ?primary = "dnsmos_models_dir e @ ''/sig_bak_ovr.onnx''"
  let ?p808 = "dnsmos_models_dir e @ ''/model_v8.onnx''"
  let ?sys_path = "if files w (package_parent e @ ''/DNSMOS/DNSMOS'') \<noteq> None
                   then [package_parent e @ ''/DNSMOS/DNSMOS''] else []"
  from assms obtain ComputeScore where
    c: "import_ComputeScore e ?sys_path = Inr ComputeScore"
    and i: "DNSMOSWrapper_init e ComputeScore w = (Inr self, w1)"
    by (cases "import_ComputeScore e ?sys_path")
      (simp_all add: import_dnsmos_wrapper_def Let_def split: if_splits)
  from i have "calls w1 = calls w @ [Construct ?primary ?p808]"
    and "ComputeScore ?primary ?p808 = Inr (compute_score self)"
    by (auto simp: DNSMOSWrapper_init_def Let_def split: sum.splits)
  with c show ?thesis by blast
qed

text \<open>
  C2 (amended). The scorer is constructed when the module is imported, not on the first
  call: in every process that gets past the import, the first recorded call is the one
  construction of \<open>ComputeScore\<close> on the two model paths, before and whether or not
  \<open>dnsmos\<close> is called; no call of \<open>dnsmos\<close> constructs anything, and every call of
  the scorer is a call of the instance that construction returned.
\<close>

theorem scorer_constructed_once_at_import:
  assumes "process e cs w = (Inr rs, w')"
  shows "\<exists>s evs.
           (\<exists>sys_path ComputeScore. import_ComputeScore e sys_path = Inr ComputeScore \<and>
              ComputeScore (dnsmos_models_dir e @ ''/sig_bak_ovr.onnx'')
                (dnsmos_models_dir e @ ''/model_v8.onnx'') = Inr s) \<and>
           new_calls w w' =
             Construct (dnsmos_models_dir e @ ''/sig_bak_ovr.onnx'')
               (dnsmos_models_dir e @ ''/model_v8.onnx'') # evs \<and>
           (\<forall>ev\<in>set evs. \<not> is_Construct ev \<and>
              (\<forall>p r f res. ev = Score p r f res \<longrightarrow> (\<exists>fs. res = s p r f fs))) \<and>
           length rs = length cs"
proof -
  from assms obtain self w1 where
    imp: "import_dnsmos_wrapper e w = (Inr self, w1)"
    and run: "dnsmos_calls e self cs w1 = (Inr rs, w')"
    by (auto simp: process_def split: prod.splits sum.splits)
  from dnsmos_calls_events [of e self cs w1] run obtain evs where
    "calls w' = calls w1 @ evs" "length rs = length cs"
    "\<forall>ev\<in>set evs. \<not> is_Construct ev \<and>
       (\<forall>p r f res. ev = Score p r f res \<longrightarrow> (\<exists>fs. res = compute_score self p r f fs))"
    by auto
  with import_constructs [OF imp] show ?thesis
    by (intro exI [of _ "compute_score self"] exI [of _ evs]) (simp add: new_calls_def)
qed

lemma stub_process:
  "process stub_env [(NdArray (Array1 [0, 1/2]), 16000), (NdArray (Array1 [0, 1/2]), 16000)]
     empty_world =
   (Inr [Some [(''SIG'', 3.5), (''BAK'', 4.0), (''OVRL'', 3.8)],
         Some [(''SIG'', 3.5), (''BAK'', 4.0), (''OVRL'', 3.8)]],
    \<lparr>files = Map.empty, stdout = [],
     calls = [Construct ''/opt/python_modules/DNSMOS/DNSMOS/DNSMOS/sig_bak_ovr.onnx''
                ''/opt/python_modules/DNSMOS/DNSMOS/DNSMOS/model_v8.onnx'',
              SfWrite ''/tmp/tmpk3x9.wav'' (Array1 [0, 1/2]) 16000,
              Score ''/tmp/tmpk3x9.wav'' 16000 False (Inr stub_scores),
              Unlink ''/tmp/tmpk3x9.wav'',
              SfWrite ''/tmp/tmpk3x9.wav'' (Array1 [0, 1/2]) 16000,
              Score ''/tmp/tmpk3x9.wav'' 16000 False (Inr stub_scores),
              Unlink ''/tmp/tmpk3x9.wav'']\<rparr>)"
  by (simp add: process_def import_dnsmos_wrapper_def DNSMOSWrapper_init_def dnsmos_models_dir_def
      dnsmos_def calculate_dnsmos_from_array_def calculate_dnsmos_from_array_try_def
      to_mono_def to_16k_def stf_exec stub_env_def returning_scorer_def
      empty_world_def except_Exception_def Let_def record_call_def
      scores_of_def getitem_def stub_scores_def)

theorem scorer_constructed_once_at_import_witness:
  "length (filter is_Construct
     (new_calls empty_world
       (snd (process stub_env
          [(NdArray (Array1 [0, 1/2]), 16000), (NdArray (Array1 [0, 1/2]), 16000)]
          empty_world)))) = 1"
proof -
  from scorer_constructed_once_at_import [OF stub_process] obtain evs where
    "new_calls empty_world
       (snd (process stub_env
          [(NdArray (Array1 [0, 1/2]), 16000), (NdArray (Array1 [0, 1/2]), 16000)]
          empty_world)) =
     Construct (dnsmos_models_dir stub_env @ ''/sig_bak_ovr.onnx'')
       (dnsmos_models_dir stub_env @ ''/model_v8.onnx'') # evs"
    and "\<forall>ev\<in>set evs. \<not> is_Construct ev"
    unfolding stub_process by auto
  then show ?thesis
    by (simp add: filter_empty_conv [THEN iffD2])
qed

text \<open>
  C2 as stated fails: a process that imports the module and never calls \<open>dnsmos\<close>
  has constructed the scorer.
\<close>

theorem construction_is_not_lazy:
  "new_calls empty_world (snd (process stub_env [] empty_world)) =
     [Construct ''/opt/python_modules/DNSMOS/DNSMOS/DNSMOS/sig_bak_ovr.onnx''
        ''/opt/python_modules/DNSMOS/DNSMOS/DNSMOS/model_v8.onnx'']"
  by (simp add: process_def import_dnsmos_wrapper_def DNSMOSWrapper_init_def dnsmos_models_dir_def
      stub_env_def empty_world_def Let_def new_calls_def)

section \<open>The installer\<close>

lemma print_status_simps [simp]:
  "calls (print_status m s w) = calls w"
  "files (print_status m s w) = files w"
  "stdout (print_status m s w) = stdout w @ [status_line m s]"
  by (simp_all add: print_status_def)

text \<open>
  C10. Under conda the command \<open>install_package\<close> builds does not mention the
  force flag, so the whole call does the same with the flag set or not.
\<close>

theorem conda_command_ignores_force:
  "install_cmd h package True force_flag =
     [''conda'', ''install'', ''-y'', ''-c'', ''conda-forge'', package] \<and>
   install_package h package True True verbose_flag w =
     install_package h package True False verbose_flag w"
  by (simp add: install_cmd_def install_package_def)

lemma check_pip_eq:
  "check_pip h w =
     (found h (executable h) \<and> returncode h [executable h, ''-m'', ''pip'', ''--version''] = 0,
      record_call (Run [executable h, ''-m'', ''pip'', ''--version'']) w)"
  by (simp add: check_pip_def subprocess_run_def Let_def)

lemma check_conda_eq:
  "check_conda h w =
     (found h ''conda'' \<and> returncode h [''conda'', ''--version''] = 0,
      record_call (Run [''conda'', ''--version'']) w)"
  by (simp add: check_conda_def subprocess_run_def Let_def)

lemma install_cmd_prog:
  "\<exists>rest. install_cmd h package c f = (if c then ''conda'' else executable h) # rest"
  by (simp add: install_cmd_def)

lemma install_cmd_length: "4 < length (install_cmd h package c f)"
  by (simp add: install_cmd_def)

text \<open>One installation, once the program of the package manager is known to start and
  pip's error output decodes.\<close>

lemma install_package_found:
  assumes "found h (if c then ''conda'' else executable h)"
    and "utf8 (map of_char (stderr_bytes h (install_cmd h package c f)))"
  shows "\<exists>ok w' out.
           install_package h package c f v w = (Inr ok, w') \<and>
           calls w' = calls w @ [Run (install_cmd h package c f)] \<and>
           files w' = files w \<and>
           stdout w' = stdout w @ out \<and>
           (returncode h (install_cmd h package c f) \<noteq> 0 \<longrightarrow>
              status_line
                (''Failed to install '' @ package @ '': '' @
                   str_CalledProcessError h (install_cmd h package c f)
                     (returncode h (install_cmd h package c f)))
                ''ERROR'' \<in> set out)"
proof -
  obtain rest where cmd: "install_cmd h package c f = (if c then ''conda'' else executable h) # rest"
    using install_cmd_prog by blast
  show ?thesis
    using assms
    by (cases "returncode h (install_cmd h package c f) = 0"; cases v)
       (auto simp: install_package_def subprocess_run_def decode_def Let_def cmd)
qed

text \<open>An installation that fails with error output that is not UTF-8, the output being
  captured: the handler raises, after the \<open>ERROR\<close> line.\<close>

lemma install_package_undecodable:
  assumes "found h (if c then ''conda'' else executable h)"
    and "returncode h (install_cmd h package c f) \<noteq> 0"
    and "stderr_bytes h (install_cmd h package c f) \<noteq> []"
    and "\<not> utf8 (map of_char (stderr_bytes h (install_cmd h package c f)))"
  shows "\<exists>msg w'. install_package h package c f False w =
                     (Inl (Raised (Exc ''UnicodeDecodeError'' msg)), w') \<and>
           calls w' = calls w @ [Run (install_cmd h package c f)]"
proof -
  obtain rest where cmd: "install_cmd h package c f = (if c then ''conda'' else executable h) # rest"
    using install_cmd_prog by blast
  show ?thesis
    using assms
    by (auto simp: install_package_def subprocess_run_def decode_def Let_def cmd)
qed

lemma install_all_found:
  assumes "found h (if conda a then ''conda'' else executable h)"
    and "\<forall>cmd. utf8 (map of_char (stderr_bytes h cmd))"
  shows "\<exists>w' out.
           install_all h pkgs a w = (Inr (), w') \<and>
           calls w' = calls w @ map (\<lambda>package. Run (install_cmd h package (conda a) (force a))) pkgs \<and>
           files w' = files w \<and>
           stdout w' = stdout w @ out \<and>
           (\<forall>package \<in> set pkgs.
              returncode h (install_cmd h package (conda a) (force a)) \<noteq> 0 \<longrightarrow>
              status_line
                (''Failed to install '' @ package @ '': '' @
                   str_CalledProcessError h (install_cmd h package (conda a) (force a))
                     (returncode h (install_cmd h package (conda a) (force a))))
                ''ERROR'' \<in> set out)"
proof (induction pkgs arbitrary: w)
  case Nil
  show ?case by simp
next
  case (Cons package pkgs)
  from assms(2) have dec: "utf8 (map of_char (stderr_bytes h (install_cmd h package (conda a) (force a))))"
    by blast
  from install_package_found [OF assms(1) dec, of "verbose a" w]
  obtain ok w1 out1 where
    one: "install_package h package (conda a) (force a) (verbose a) w = (Inr ok, w1)"
      "calls w1 = calls w @ [Run (install_cmd h package (conda a) (force a))]"
      "files w1 = files w" "stdout w1 = stdout w @ out1"
      "returncode h (install_cmd h package (conda a) (force a)) \<noteq> 0 \<longrightarrow>
              status_line
                (''Failed to install '' @ package @ '': '' @
                   str_CalledProcessError h (install_cmd h package (conda a) (force a))
                     (returncode h (install_cmd h package (conda a) (force a))))
                ''ERROR'' \<in> set out1"
    by blast
  from Cons.IH [of w1] obtain w2 out2 where
    rest: "install_all h pkgs a w1 = (Inr (), w2)"
      "calls w2 = calls w1 @ map (\<lambda>package. Run (install_cmd h package (conda a) (force a))) pkgs"
      "files w2 = files w1" "stdout w2 = stdout w1 @ out2"
      "\<forall>package \<in> set pkgs.
              returncode h (install_cmd h package (conda a) (force a)) \<noteq> 0 \<longrightarrow>
              status_line
                (''Failed to install '' @ package @ '': '' @
                   str_CalledProcessError h (install_cmd h package (conda a) (force a))
                     (returncode h (install_cmd h package (conda a) (force a))))
                ''ERROR'' \<in> set out2"
    by blast
  show ?case
    by (intro exI [of _ w2] exI [of _ "out1 @ out2"])
       (use one rest in auto)
qed

lemma check_dnsmos_submodule_keeps:
  "calls (snd (check_dnsmos_submodule w)) = calls w \<and>
   files (snd (check_dnsmos_submodule w)) = files w \<and>
   (\<exists>out. stdout (snd (check_dnsmos_submodule w)) = stdout w @ out)"
  by (simp add: check_dnsmos_submodule_def Let_def)

lemma create_dnsmos_wrapper_keeps:
  assumes "files w ''python_modules/dnsmos_wrapper.py'' \<noteq> Some Dir"
    and "open_error h ''python_modules/dnsmos_wrapper.py'' = None"
  shows "fst (create_dnsmos_wrapper h w) = Inr () \<and>
         calls (snd (create_dnsmos_wrapper h w)) = calls w \<and>
         (\<exists>out. stdout (snd (create_dnsmos_wrapper h w)) = stdout w @ out)"
  using assms by (simp add: create_dnsmos_wrapper_def Let_def)

text \<open>Where the write is refused, \<open>create_dnsmos_wrapper\<close> raises.\<close>

lemma create_dnsmos_wrapper_refused:
  "open_error h ''python_modules/dnsmos_wrapper.py'' = Some x \<Longrightarrow>
   files w ''python_modules/dnsmos_wrapper.py'' \<noteq> Some Dir \<Longrightarrow>
   create_dnsmos_wrapper h w = (Inl (Raised x), w)"
  by (simp add: create_dnsmos_wrapper_def Let_def)

lemma test_installation_keeps:
  assumes "\<forall>m x. import_error h m = Some x \<longrightarrow> is_ImportError x"
  shows "fst (test_installation h w) = Inr () \<and>
         calls (snd (test_installation h w)) = calls w \<and>
         (\<exists>out. stdout (snd (test_installation h w)) = stdout w @ out)"
proof -
  have ie: "first_import_error h ms = Some x \<Longrightarrow> is_ImportError x" for x ms
    using assms by (induction ms) (auto split: option.splits)
  let ?ms = "[''numpy'', ''librosa'', ''soundfile'', ''pypesq'', ''onnxruntime'']"
  show ?thesis
  proof (cases "first_import_error h ?ms")
    case None
    show ?thesis unfolding test_installation_def Let_def None by simp
  next
    case (Some x)
    from ie [OF Some] show ?thesis unfolding test_installation_def Let_def Some by simp
  qed
qed

text \<open>An import that raises anything but \<open>ImportError\<close> is not caught by the test.\<close>

lemma test_installation_escapes:
  assumes "first_import_error h [''numpy'', ''librosa'', ''soundfile'', ''pypesq'', ''onnxruntime'']
             = Some x"
    and "\<not> is_ImportError x"
  shows "fst (test_installation h w) = Inl (Raised x)"
  unfolding test_installation_def Let_def assms(1) using assms(2) by simp

text \<open>With the package manager found, error output that decodes and a wrapper file that
  can be written, the run reaches the import test: every package has been attempted, in
  order, and every failure has been printed.\<close>

lemma install_and_test_found:
  assumes "found h (if conda a then ''conda'' else executable h)"
    and "\<forall>cmd. utf8 (map of_char (stderr_bytes h cmd))"
    and "files w ''python_modules/dnsmos_wrapper.py'' \<noteq> Some Dir"
    and "open_error h ''python_modules/dnsmos_wrapper.py'' = None"
  shows "\<exists>w4. install_and_test h a w = test_installation h w4 \<and>
           calls w4 =
             calls w @ map (\<lambda>package. Run (install_cmd h package (conda a) (force a)))
                         (core_packages @ metrics_packages) \<and>
           (\<forall>package \<in> set (core_packages @ metrics_packages).
              returncode h (install_cmd h package (conda a) (force a)) \<noteq> 0 \<longrightarrow>
              status_line
                (''Failed to install '' @ package @ '': '' @
                   str_CalledProcessError h (install_cmd h package (conda a) (force a))
                     (returncode h (install_cmd h package (conda a) (force a))))
                ''ERROR'' \<in> set (stdout w4))"
proof -
  let ?fail = "\<lambda>package. status_line
                (''Failed to install '' @ package @ '': '' @
                   str_CalledProcessError h (install_cmd h package (conda a) (force a))
                     (returncode h (install_cmd h package (conda a) (force a))))
                ''ERROR''"
  let ?bad = "\<lambda>package. returncode h (install_cmd h package (conda a) (force a)) \<noteq> 0"
  let ?run = "\<lambda>package. Run (install_cmd h package (conda a) (force a))"
  let ?wa = "print_status ''Installing core dependencies...'' ''INFO'' w"
  from install_all_found [OF assms(1,2), of core_packages ?wa]
  obtain w1 out1 where
    core: "install_all h core_packages a ?wa = (Inr (), w1)"
      "calls w1 = calls ?wa @ map ?run core_packages"
      "stdout w1 = stdout ?wa @ out1"
      "\<forall>package \<in> set core_packages. ?bad package \<longrightarrow> ?fail package \<in> set out1"
      "files w1 = files ?wa"
    by blast
  let ?wb = "print_status ''Installing metrics dependencies...'' ''INFO'' w1"
  from install_all_found [OF assms(1,2), of metrics_packages ?wb]
  obtain w2 out2 where
    metrics: "install_all h metrics_packages a ?wb = (Inr (), w2)"
      "calls w2 = calls ?wb @ map ?run metrics_packages"
      "stdout w2 = stdout ?wb @ out2"
      "\<forall>package \<in> set metrics_packages. ?bad package \<longrightarrow> ?fail package \<in> set out2"
      "files w2 = files ?wb"
    by blast
  have f2: "files w2 = files w"
    by (simp add: metrics(5) core(5))
  let ?c = "case check_dnsmos_submodule w2 of
              (True, w') \<Rightarrow> create_dnsmos_wrapper h w'
            | (False, w') \<Rightarrow> (Inr (), w')"
  have c: "fst ?c = Inr () \<and> calls (snd ?c) = calls w2 \<and> (\<exists>out. stdout (snd ?c) = stdout w2 @ out)"
  proof (cases "check_dnsmos_submodule w2")
    case (Pair ok w')
    with check_dnsmos_submodule_keeps [of w2]
    have k: "calls w' = calls w2" "files w' = files w2" "\<exists>out. stdout w' = stdout w2 @ out"
      by simp_all
    show ?thesis
    proof (cases ok)
      case True
      from create_dnsmos_wrapper_keeps [of w' h] assms(3,4) k(2) f2
      have "fst (create_dnsmos_wrapper h w') = Inr ()"
        "calls (snd (create_dnsmos_wrapper h w')) = calls w'"
        "\<exists>out. stdout (snd (create_dnsmos_wrapper h w')) = stdout w' @ out"
        by simp_all
      with k True Pair show ?thesis by auto
    next
      case False
      with k Pair show ?thesis by simp
    qed
  qed
  then obtain w3 out3 where w3: "?c = (Inr (), w3)" "calls w3 = calls w2" "stdout w3 = stdout w2 @ out3"
    by (cases ?c) auto
  let ?w4 = "print_status ''You can now use the HADatasets metrics module.'' ''INFO''
                 (print_status ''Installation completed!'' ''SUCCESS'' w3)"
  have eq: "install_and_test h a w = test_installation h ?w4"
    by (simp add: install_and_test_def core(1) metrics(1) w3(1))
  have "calls ?w4 = calls w @ map ?run (core_packages @ metrics_packages)"
    by (simp add: w3(2) core(2) metrics(2))
  moreover have "set out1 \<union> set out2 \<subseteq> set (stdout ?w4)"
    by (auto simp: w3(3) metrics(3) core(3))
  ultimately show ?thesis
    using core(4) metrics(4) eq by (intro exI [of _ ?w4]) auto
qed

text \<open>What \<open>main\<close> does up to the import test, by the three checks.\<close>

lemma main_old_python:
  assumes "fst (version_info h) < 3 \<or> fst (version_info h) = 3 \<and> snd (version_info h) < 7"
  shows "fst (main h a w) = Inl (SystemExit 1) \<and> calls (snd (main h a w)) = calls w"
  using assms
  by (cases "version_info h") (auto simp: main_def check_python_version_def Let_def)

lemma main_no_manager:
  assumes "\<not> (fst (version_info h) < 3 \<or> fst (version_info h) = 3 \<and> snd (version_info h) < 7)"
    and "\<not> fst (if conda a then check_conda h w else check_pip h w)"
  shows "fst (main h a w) = Inl (SystemExit 1) \<and>
         calls (snd (main h a w)) =
           calls w @ [Run (if conda a then [''conda'', ''--version'']
                           else [executable h, ''-m'', ''pip'', ''--version''])]"
  using assms
  by (cases "version_info h")
     (auto simp: main_def check_python_version_def Let_def check_pip_eq check_conda_eq)

lemma main_manager_found:
  assumes "\<not> (fst (version_info h) < 3 \<or> fst (version_info h) = 3 \<and> snd (version_info h) < 7)"
    and "fst (if conda a then check_conda h w else check_pip h w)"
    and "\<forall>cmd. utf8 (map of_char (stderr_bytes h cmd))"
    and "files w ''python_modules/dnsmos_wrapper.py'' \<noteq> Some Dir"
    and "open_error h ''python_modules/dnsmos_wrapper.py'' = None"
  shows "\<exists>w4. main h a w = test_installation h w4 \<and>
           calls w4 =
             calls w @
             Run (if conda a then [''conda'', ''--version'']
                  else [executable h, ''-m'', ''pip'', ''--version'']) #
             map (\<lambda>package. Run (install_cmd h package (conda a) (force a)))
               (core_packages @ metrics_packages) \<and>
           (\<forall>package \<in> set (core_packages @ metrics_packages).
              returncode h (install_cmd h package (conda a) (force a)) \<noteq> 0 \<longrightarrow>
              status_line
                (''Failed to install '' @ package @ '': '' @
                   str_CalledProcessError h (install_cmd h package (conda a) (force a))
                     (returncode h (install_cmd h package (conda a) (force a))))
                ''ERROR'' \<in> set (stdout w4))"
proof -
  from assms(2) have found: "found h (if conda a then ''conda'' else executable h)"
    by (simp add: check_pip_eq check_conda_eq split: if_splits)
  let ?w0 = "print_status (replicate 50 CHR ''='') ''INFO''
                 (print_status ''HADatasets Python Dependencies Installation'' ''INFO'' w)"
  obtain w1 where v: "check_python_version h ?w0 = (Inr (), w1)" and w1: "calls w1 = calls w"
    "files w1 = files w"
    using assms(1)
    by (cases "version_info h") (auto simp: check_python_version_def)
  let ?check = "if conda a then [''conda'', ''--version'']
                else [executable h, ''-m'', ''pip'', ''--version'']"
  let ?w2 = "print_status
               (if conda a then ''Using conda for package installation''
                else ''Using pip for package installation'') ''INFO''
               (record_call (Run ?check) w1)"
  have m: "main h a w = install_and_test h a ?w2"
    using assms(2)
    by (auto simp: main_def v Let_def check_pip_eq check_conda_eq)
  have f: "files ?w2 ''python_modules/dnsmos_wrapper.py'' \<noteq> Some Dir"
    using assms(4) by (simp add: w1(2))
  from install_and_test_found [OF found assms(3) f assms(5)] show ?thesis
    unfolding m by (auto simp: w1)
qed

text \<open>
  The exit status on the runs in which nothing escapes. Without the selected
  package manager the installer exits with status 1 and no installation command has
  been run. With it, on Python 3.7 or later, when pip's error output decodes, the wrapper
  file can be written and the import test raises nothing but \<open>ImportError\<close>: the
  check is followed by one installation command for each of the eight packages, in
  order, every failed installation is printed as an \<open>ERROR\<close> line, and the exit
  status is 0.
\<close>

lemma manager_absent_exits_1:
  assumes "\<not> fst (if conda a then check_conda h w else check_pip h w)"
  shows "exit_status (fst (main h a w)) = 1 \<and>
         (\<forall>package c f. Run (install_cmd h package c f) \<notin> set (new_calls w (snd (main h a w))))"
proof
  have len: "Run (install_cmd h package c f) \<noteq>
               Run (if conda a then [''conda'', ''--version'']
                    else [executable h, ''-m'', ''pip'', ''--version''])" for package c f
    using install_cmd_length [of h package c f] by auto
  show "exit_status (fst (main h a w)) = 1"
    using main_old_python [of h a w] main_no_manager [OF _ assms] by fastforce
  show "\<forall>package c f. Run (install_cmd h package c f) \<notin> set (new_calls w (snd (main h a w)))"
  proof (cases "fst (version_info h) < 3 \<or> fst (version_info h) = 3 \<and> snd (version_info h) < 7")
    case True
    from main_old_python [OF True, of a w] show ?thesis by (simp add: new_calls_def)
  next
    case False
    from main_no_manager [OF False assms] len show ?thesis by (simp add: new_calls_def)
  qed
qed

lemma exit_status_0_when_nothing_escapes:
  assumes v: "\<not> (fst (version_info h) < 3 \<or> fst (version_info h) = 3 \<and> snd (version_info h) < 7)"
    and present: "fst (if conda a then check_conda h w else check_pip h w)"
    and dec: "\<forall>cmd. utf8 (map of_char (stderr_bytes h cmd))"
    and nodir: "files w ''python_modules/dnsmos_wrapper.py'' \<noteq> Some Dir"
    and opn: "open_error h ''python_modules/dnsmos_wrapper.py'' = None"
    and imps: "\<forall>m x. import_error h m = Some x \<longrightarrow> is_ImportError x"
  shows "exit_status (fst (main h a w)) = 0 \<and>
      new_calls w (snd (main h a w)) =
        Run (if conda a then [''conda'', ''--version'']
             else [executable h, ''-m'', ''pip'', ''--version'']) #
        map (\<lambda>package. Run (install_cmd h package (conda a) (force a)))
          (core_packages @ metrics_packages) \<and>
      (\<forall>package \<in> set (core_packages @ metrics_packages).
         returncode h (install_cmd h package (conda a) (force a)) \<noteq> 0 \<longrightarrow>
         status_line
           (''Failed to install '' @ package @ '': '' @
              str_CalledProcessError h (install_cmd h package (conda a) (force a))
                (returncode h (install_cmd h package (conda a) (force a))))
           ''ERROR'' \<in> set (stdout (snd (main h a w))))"
proof -
  from main_manager_found [OF v present dec nodir opn] obtain w4 where
    m: "main h a w = test_installation h w4"
    and c: "calls w4 =
             calls w @
             Run (if conda a then [''conda'', ''--version'']
                  else [executable h, ''-m'', ''pip'', ''--version'']) #
             map (\<lambda>package. Run (install_cmd h package (conda a) (force a)))
               (core_packages @ metrics_packages)"
    and l: "\<forall>package \<in> set (core_packages @ metrics_packages).
              returncode h (install_cmd h package (conda a) (force a)) \<noteq> 0 \<longrightarrow>
              status_line
                (''Failed to install '' @ package @ '': '' @
                   str_CalledProcessError h (install_cmd h package (conda a) (force a))
                     (returncode h (install_cmd h package (conda a) (force a))))
                ''ERROR'' \<in> set (stdout w4)"
    by blast
  from test_installation_keeps [OF imps, of w4] obtain out where
    t: "fst (test_installation h w4) = Inr ()" "calls (snd (test_installation h w4)) = calls w4"
      "stdout (snd (test_installation h w4)) = stdout w4 @ out"
    by blast
  show ?thesis
    using l by (simp add: m t c new_calls_def)
qed

text \<open>
  C7 (the code breaks it). The handler of \<open>install_package\<close> decodes the captured
  error output (line 82), and that can raise inside the handler, where nothing catches
  it. On a host with Python 3.11 and pip, where the installation of \<open>numpy\<close>, the
  first package, fails and pip's error output is the byte \<open>0xFF\<close>, the run ends
  with an uncaught \<open>UnicodeDecodeError\<close>: the exit status is 1, not 0, and after the
  check of pip only the installation of \<open>numpy\<close> has been attempted, not those of
  the seven packages after it.
\<close>

theorem failed_installation_ends_the_run:
  "fst (check_pip undecodable_host empty_world) \<and>
   fst (main undecodable_host default_args empty_world) =
     Inl (Raised (Exc ''UnicodeDecodeError'' ''utf-8 codec cannot decode the bytes'')) \<and>
   exit_status (fst (main undecodable_host default_args empty_world)) = 1 \<and>
   new_calls empty_world (snd (main undecodable_host default_args empty_world)) =
     [Run [''/usr/bin/python3'', ''-m'', ''pip'', ''--version''],
      Run [''/usr/bin/python3'', ''-m'', ''pip'', ''install'', ''numpy'']]"
  by (simp add: main_def check_python_version_def check_pip_eq install_and_test_def
      core_packages_def install_package_def install_cmd_def subprocess_run_def decode_def
      undecodable_host_def stub_host_def default_args_def empty_world_def Let_def
      new_calls_def record_call_def)

end
